theory Spec2Isabelle
  imports Complex_Main "HOL-Library.AList"
begin

section \<open>Importer branch for KHR\_materials\_pbrSpecularGlossiness\<close>

text \<open>
  A shallow embedding of
  \<^verbatim>\<open>addons/io_scene_gltf2/blender/imp/KHR_materials_pbrSpecularGlossiness.py\<close>:
  the functions \<^verbatim>\<open>glossiness\<close>, \<^verbatim>\<open>pbr_specular_glossiness\<close> and
  \<^verbatim>\<open>calc_locations\<close>. The material helper and the node graph it builds are an
  explicit state that every function takes and returns; an exception is a value that
  carries the state reached when it was raised, since Python keeps earlier mutations.
  Numbers decoded from JSON and node coordinates are real numbers: Python's floats are
  idealised as exact. The coordinates the layout computes, multiples of 230 and 20, are
  exact in binary floating point; the converter's only arithmetic is the subtraction
  \<^verbatim>\<open>1.0 - factor\<close>, whose rounding the properties below do not depend on; NaN and
  infinities are outside the model.
\<close>

subsection \<open>Python values decoded from the glTF JSON\<close>

datatype jvalue =
    JNull
  | JBool bool
  | JNum real
  | JStr string
  | JArr "jvalue list"
  | JObj "(string \<times> jvalue) list"

text \<open>The extension dict: string keys, decoded values. \<open>JNull\<close> is Python's \<^verbatim>\<open>None\<close>.\<close>

type_synonym ext_dict = "string \<rightharpoonup> jvalue"

text \<open>\<^verbatim>\<open>ext.get(key, default)\<close>; \<^verbatim>\<open>ext.get(key)\<close> is \<open>dict_get ext key JNull\<close>.\<close>

definition dict_get :: "ext_dict \<Rightarrow> string \<Rightarrow> jvalue \<Rightarrow> jvalue" where
  "dict_get ext key dflt = (case ext key of None \<Rightarrow> dflt | Some v \<Rightarrow> v)"

text \<open>\<^verbatim>\<open>key in ext\<close>.\<close>

definition dict_in :: "string \<Rightarrow> ext_dict \<Rightarrow> bool" where
  "dict_in key ext = (ext key \<noteq> None)"

text \<open>Python truthiness, as tested by \<^verbatim>\<open>if tex_info_dict\<close>.\<close>

fun truthy :: "jvalue \<Rightarrow> bool" where
  "truthy JNull = False"
| "truthy (JBool b) = b"
| "truthy (JNum r) = (r \<noteq> 0)"
| "truthy (JStr s) = (s \<noteq> [])"
| "truthy (JArr xs) = (xs \<noteq> [])"
| "truthy (JObj kvs) = (kvs \<noteq> [])"

datatype error = TypeError | KeyError | AssertionError | OverflowError

text \<open>
  A JSON number decodes to a Python float or, when written as an integer, to a Python
  int of any size; \<open>JNum\<close> stands for both. Arithmetic with a float converts an int to
  a float first, which raises \<^verbatim>\<open>OverflowError\<close> when the int rounds beyond the
  largest float: from \<open>2 ^ 1024 - 2 ^ 970\<close> on in absolute value. A number of that
  size can only be an int, every finite float being smaller.
\<close>

definition converts_to_float :: "real \<Rightarrow> bool" where
  "converts_to_float r = (\<bar>r\<bar> < 2 ^ 1024 - 2 ^ 970)"

text \<open>
  \<^verbatim>\<open>1.0 - factor\<close>: defined on numbers that convert to a float (a Python bool is the
  integer 0 or 1), an \<^verbatim>\<open>OverflowError\<close> on an integer beyond the float range, a
  \<^verbatim>\<open>TypeError\<close> on anything that is no number.
\<close>

fun py_rsub :: "real \<Rightarrow> jvalue \<Rightarrow> error + real" where
  "py_rsub a (JNum r) = (if converts_to_float r then Inr (a - r) else Inl OverflowError)"
| "py_rsub a (JBool b) = Inr (a - (if b then 1 else 0))"
| "py_rsub a v = Inl TypeError"

text \<open>
  \<^verbatim>\<open>factor != 1.0\<close>: never raises (Python compares an int with a float exactly,
  without converting it); a non-number differs from every float.
\<close>

fun py_ne :: "jvalue \<Rightarrow> real \<Rightarrow> bool" where
  "py_ne (JNum r) a = (r \<noteq> a)"
| "py_ne (JBool b) a = ((if b then 1 else 0) \<noteq> a)"
| "py_ne v a = True"

text \<open>
  Python's two-argument \<^verbatim>\<open>min\<close> and \<^verbatim>\<open>max\<close> return the first argument unless
  the second is strictly smaller (greater).
\<close>

definition py_min :: "real \<Rightarrow> real \<Rightarrow> real" where
  "py_min a b = (if b < a then b else a)"

definition py_max :: "real \<Rightarrow> real \<Rightarrow> real" where
  "py_max a b = (if a < b then b else a)"

text \<open>
  The specification's \<open>clamp(v, lo, hi)\<close>, written from its words, to compare with the
  \<^verbatim>\<open>max(0.0, min(1.0, ...))\<close> of the source.
\<close>

definition clamp :: "real \<Rightarrow> real \<Rightarrow> real \<Rightarrow> real" where
  "clamp v lo hi = (if v < lo then lo else if hi < v then hi else v)"

subsection \<open>The node graph and the material helper\<close>

text \<open>
  A socket is addressed through its node handle and the key used to look it up
  (\<^verbatim>\<open>inputs[1]\<close>, \<^verbatim>\<open>inputs['Roughness']\<close>). A node handle is the position of the node
  in the helper's node collection, which this module only ever appends to.
\<close>

datatype sock_key = Idx nat | Name string

datatype socket = Input nat sock_key | Output nat sock_key

text \<open>
  Modelled from the spec: \<^verbatim>\<open>TextureInfo\<close> (module \<^verbatim>\<open>io.com.gltf2_io\<close>, not part of
  this unit), the "parsed reference to an image/texture plus UV channel".
\<close>

record TextureInfo =
  index :: nat
  tex_coord :: "nat option"

text \<open>
  The attributes of a node that this module assigns. \<open>None\<close> is the host's default for
  an attribute nobody assigned.
\<close>

record node =
  bl_idname :: string
  label :: "string option"
  operation :: "string option"
  location :: "(real \<times> real) option"
  width :: "real option"
  use_clamp :: "bool option"
  image :: "TextureInfo option"
  is_data :: "bool option"

text \<open>
  A build delegated to a sibling module, with the arguments it was invoked with.
\<close>

datatype call =
    BaseColor bool "real \<times> real" socket socket
  | Emission "real \<times> real" socket socket
  | Normal "real \<times> real" socket
  | Occlusion "real \<times> real" socket
  | ColorFactorAndTexture "real \<times> real" string socket jvalue jvalue
  | MakeSettingsNode

text \<open>
  The material helper \<^verbatim>\<open>mh\<close>: the node and link collections of the material's graph,
  the default values assigned to sockets, the optional shared settings node, what the
  module reads of the source material (\<^verbatim>\<open>mh.pymat.occlusion_texture\<close>,
  \<^verbatim>\<open>mh.pymat.normal_texture\<close>, \<^verbatim>\<open>mh.vertex_color\<close>, the answer of
  \<^verbatim>\<open>mh.needs_emissive()\<close>, the extensions of the material), and the builds delegated
  to sibling modules so far.
\<close>

record MaterialHelper =
  nodes :: "node list"
  links :: "(socket \<times> socket) list"
  default_value :: "socket \<rightharpoonup> jvalue"
  settings_node :: "nat option"
  occlusion_texture :: "TextureInfo option"
  normal_texture :: "TextureInfo option"
  vertex_color :: bool
  needs_emissive :: bool
  extensions :: "string \<rightharpoonup> ext_dict"
  built :: "call list"

datatype outcome = Returned MaterialHelper | Raised error MaterialHelper

fun state_of :: "outcome \<Rightarrow> MaterialHelper" where
  "state_of (Returned mh) = mh"
| "state_of (Raised e mh) = mh"

fun raised :: "outcome \<Rightarrow> bool" where
  "raised (Returned mh) = False"
| "raised (Raised e mh) = True"

text \<open>\<^verbatim>\<open>mh.nodes.new(idname)\<close>: a fresh node with the host's defaults, and its handle.\<close>

definition nodes_new :: "string \<Rightarrow> MaterialHelper \<Rightarrow> nat \<times> MaterialHelper" where
  "nodes_new idname mh =
     (length (nodes mh),
      mh\<lparr>nodes := nodes mh @
        [\<lparr>bl_idname = idname, label = None, operation = None, location = None,
          width = None, use_clamp = None, image = None, is_data = None\<rparr>]\<rparr>)"

text \<open>\<^verbatim>\<open>mh.links.new(from_socket, to_socket)\<close>.\<close>

definition links_new :: "socket \<Rightarrow> socket \<Rightarrow> MaterialHelper \<Rightarrow> MaterialHelper" where
  "links_new from_socket to_socket mh = mh\<lparr>links := links mh @ [(from_socket, to_socket)]\<rparr>"

text \<open>
  \<^verbatim>\<open>socket.default_value = v\<close>. The value is stored as it is given; what the host
  does with a value of the wrong type is not part of the model.
\<close>

definition set_default_value :: "socket \<Rightarrow> jvalue \<Rightarrow> MaterialHelper \<Rightarrow> MaterialHelper" where
  "set_default_value sock v mh = mh\<lparr>default_value := (default_value mh)(sock \<mapsto> v)\<rparr>"

text \<open>
  An attribute assignment \<^verbatim>\<open>node.attr = v\<close> through a handle. The module assigns only
  through handles it has just obtained, which are in range.
\<close>

definition set_attr :: "nat \<Rightarrow> (node \<Rightarrow> node) \<Rightarrow> MaterialHelper \<Rightarrow> MaterialHelper" where
  "set_attr h f mh = mh\<lparr>nodes := (nodes mh)[h := f (nodes mh ! h)]\<rparr>"

subsection \<open>Collaborators from sibling modules\<close>

text \<open>
  Modelled from the spec: \<^verbatim>\<open>texture\<close> (module \<^verbatim>\<open>imp.texture\<close>, not part of this
  unit), the "texture-node constructor accepting a texture reference, target location,
  display label, destination color/alpha sockets, and a flag marking the sample as
  non-color data": it creates the image-sample node and routes its colour and alpha
  outputs into the sockets given.
\<close>

definition texture ::
  "MaterialHelper \<Rightarrow> TextureInfo \<Rightarrow> real \<times> real \<Rightarrow> string \<Rightarrow> socket option \<Rightarrow> socket option \<Rightarrow> bool
     \<Rightarrow> MaterialHelper" where
  "texture mh tex_info loc lbl color_socket alpha_socket data =
     (let (tex_img, mh) = nodes_new ''ShaderNodeTexImage'' mh;
          mh = set_attr tex_img (\<lambda>n. n\<lparr>location := Some loc\<rparr>) mh;
          mh = set_attr tex_img (\<lambda>n. n\<lparr>label := Some lbl\<rparr>) mh;
          mh = set_attr tex_img (\<lambda>n. n\<lparr>image := Some tex_info\<rparr>) mh;
          mh = set_attr tex_img (\<lambda>n. n\<lparr>is_data := Some data\<rparr>) mh;
          mh = (case color_socket of None \<Rightarrow> mh
                | Some s \<Rightarrow> links_new (Output tex_img (Name ''Color'')) s mh);
          mh = (case alpha_socket of None \<Rightarrow> mh
                | Some s \<Rightarrow> links_new (Output tex_img (Name ''Alpha'')) s mh)
      in mh)"

subsection \<open>The glossiness-to-roughness converter\<close>

text \<open>
  \<^verbatim>\<open>glossiness(mh, ext, location, roughness_socket)\<close>. \<^verbatim>\<open>TextureInfo.from_dict\<close>
  belongs to another module and is a parameter: it parses the raw texture dict or raises.
\<close>

definition glossiness ::
  "(jvalue \<Rightarrow> error + TextureInfo) \<Rightarrow> MaterialHelper \<Rightarrow> ext_dict \<Rightarrow> real \<times> real \<Rightarrow> socket
     \<Rightarrow> outcome" where
  "glossiness from_dict mh ext loc roughness_socket =
     (let factor = dict_get ext ''glossinessFactor'' (JNum 1);
          tex_info_dict = dict_get ext ''specularGlossinessTexture'' JNull
      in case (if truthy tex_info_dict then map_sum id Some (from_dict tex_info_dict)
               else Inr None) of
           Inl e \<Rightarrow> Raised e mh
         | Inr tex_info \<Rightarrow>
            (let (x, y) = loc
             in case tex_info of
                  None \<Rightarrow>
                    (case py_rsub 1 factor of
                       Inl e \<Rightarrow> Raised e mh
                     | Inr d \<Rightarrow>
                         Returned (set_default_value roughness_socket
                                     (JNum (py_max 0 (py_min 1 d))) mh))
                | Some ti \<Rightarrow>
                    (let (subtract_node, mh) = nodes_new ''ShaderNodeMath'' mh;
                         mh = set_attr subtract_node (\<lambda>n. n\<lparr>label := Some ''1 - Glossiness''\<rparr>) mh;
                         mh = set_attr subtract_node (\<lambda>n. n\<lparr>operation := Some ''SUBTRACT''\<rparr>) mh;
                         mh = set_attr subtract_node (\<lambda>n. n\<lparr>location := Some (x - 140, y - 50)\<rparr>) mh;
                         mh = set_default_value (Input subtract_node (Idx 0)) (JNum 1) mh;
                         mh = set_attr subtract_node (\<lambda>n. n\<lparr>use_clamp := Some True\<rparr>) mh;
                         mh = links_new (Output subtract_node (Idx 0)) roughness_socket mh;
                         glossiness_input_socket = Input subtract_node (Idx 1)
                     in if py_ne factor 1 then
                          (let (multiply_node, mh) = nodes_new ''ShaderNodeMath'' mh;
                               mh = set_attr multiply_node (\<lambda>n. n\<lparr>label := Some ''Glossiness Factor''\<rparr>) mh;
                               mh = set_attr multiply_node (\<lambda>n. n\<lparr>operation := Some ''MULTIPLY''\<rparr>) mh;
                               mh = set_attr multiply_node (\<lambda>n. n\<lparr>location := Some (x - 340, y)\<rparr>) mh;
                               mh = set_default_value (Input multiply_node (Idx 1)) factor mh;
                               mh = set_attr multiply_node (\<lambda>n. n\<lparr>use_clamp := Some True\<rparr>) mh;
                               mh = links_new (Output multiply_node (Idx 0)) glossiness_input_socket mh;
                               current_gloss_value_socket = Input multiply_node (Idx 0);
                               x_texture = x - 540
                           in Returned (texture mh ti (x_texture, y) ''SPECULAR GLOSSINESS''
                                          None (Some current_gloss_value_socket) True))
                        else
                          (let current_gloss_value_socket = glossiness_input_socket;
                               x_texture = x - 340
                           in Returned (texture mh ti (x_texture, y) ''SPECULAR GLOSSINESS''
                                          None (Some current_gloss_value_socket) True)))))"

subsection \<open>The layout calculator\<close>

text \<open>
  The mapping from block name to coordinates is a Python dict that the function fills
  and then walks in insertion order: an association list, assigned with
  \<open>AList.update\<close> (which keeps the position of a key already present and appends a
  new one) and read with \<open>map_of\<close>.
\<close>

type_synonym locs = "(string \<times> (real \<times> real)) list"

text \<open>\<^verbatim>\<open>locs[key]\<close>.\<close>

definition getitem :: "locs \<Rightarrow> string \<Rightarrow> error + (real \<times> real)" where
  "getitem locs key = (case map_of locs key of None \<Rightarrow> Inl KeyError | Some v \<Rightarrow> Inr v)"

text \<open>
  The centring loop \<^verbatim>\<open>for key in locs: cur_x, cur_y = locs[key];
  locs[key] = (cur_x, cur_y + y_offset)\<close>, over the keys still to visit.
\<close>

fun center :: "string list \<Rightarrow> real \<Rightarrow> locs \<Rightarrow> error + locs" where
  "center [] y_offset locs = Inr locs"
| "center (key # keys) y_offset locs =
     (case getitem locs key of
        Inl e \<Rightarrow> Inl e
      | Inr (cur_x, cur_y) \<Rightarrow>
          center keys y_offset (AList.update key (cur_x, cur_y + y_offset) locs))"

text \<open>
  The stacked layout before centring: the dict \<^verbatim>\<open>locs\<close> and the final \<^verbatim>\<open>y\<close>
  when the loop is reached.
\<close>

definition stack_blocks :: "MaterialHelper \<Rightarrow> ext_dict \<Rightarrow> locs \<times> real" where
  "stack_blocks mh ext =
     (let x = - 200;
          y = 0;
          height = 460;
          locs = [];
          locs = AList.update ''occlusion'' (x, y) locs;
          y = (if occlusion_texture mh \<noteq> None then y - height else y);
          locs = AList.update ''diffuse'' (x, y) locs;
          y = (if dict_in ''diffuseTexture'' ext \<or> vertex_color mh then y - height else y);
          locs = AList.update ''glossiness'' (x, y) locs;
          y = (if dict_in ''specularGlossinessTexture'' ext then y - height else y);
          locs = AList.update ''normal'' (x, y) locs;
          y = (if normal_texture mh \<noteq> None then y - height else y);
          locs = AList.update ''specular'' (x, y) locs;
          y = (if dict_in ''specularGlossinessTexture'' ext then y - height else y);
          locs = AList.update ''emission'' (x, y) locs;
          y = (if needs_emissive mh then y - height else y)
      in (locs, y))"

text \<open>\<^verbatim>\<open>calc_locations(mh, ext)\<close>.\<close>

definition calc_locations :: "MaterialHelper \<Rightarrow> ext_dict \<Rightarrow> error + locs" where
  "calc_locations mh ext =
     (let (locs, y) = stack_blocks mh ext;
          total_height = - y;
          y_offset = (if total_height > 0 then total_height / 2 - 20 else 0)
      in center (map fst locs) y_offset locs)"

subsection \<open>Graph assembly\<close>

text \<open>
  Modelled from the spec: \<^verbatim>\<open>mh.get_ext\<close> (class \<^verbatim>\<open>MaterialHelper\<close>, not part of
  this unit), the "extension-lookup accessor returning a key/value mapping for a named
  glTF extension", with the default given for an extension the material lacks.
\<close>

definition get_ext :: "MaterialHelper \<Rightarrow> string \<Rightarrow> ext_dict \<Rightarrow> ext_dict" where
  "get_ext mh ext_name dflt = (case extensions mh ext_name of None \<Rightarrow> dflt | Some e \<Rightarrow> e)"

text \<open>
  Modelled from the spec: the sub-builders \<^verbatim>\<open>base_color\<close>, \<^verbatim>\<open>emission\<close>,
  \<^verbatim>\<open>normal\<close>, \<^verbatim>\<open>occlusion\<close> (module \<^verbatim>\<open>imp.pbrMetallicRoughness\<close>) and
  \<^verbatim>\<open>color_factor_and_texture\<close> (module \<^verbatim>\<open>imp.material_utils\<close>), none of them part
  of this unit: "sub-builders supplied by a sibling module, each targeting a specific
  socket on the BSDF node and a location". What they build is theirs; the helper records
  that the build was delegated, and with which arguments.
\<close>

definition base_color ::
  "MaterialHelper \<Rightarrow> bool \<Rightarrow> real \<times> real \<Rightarrow> socket \<Rightarrow> socket \<Rightarrow> MaterialHelper" where
  "base_color mh is_diffuse loc color_socket alpha_socket =
     mh\<lparr>built := built mh @ [BaseColor is_diffuse loc color_socket alpha_socket]\<rparr>"

definition emission ::
  "MaterialHelper \<Rightarrow> real \<times> real \<Rightarrow> socket \<Rightarrow> socket \<Rightarrow> MaterialHelper" where
  "emission mh loc color_socket strength_socket =
     mh\<lparr>built := built mh @ [Emission loc color_socket strength_socket]\<rparr>"

definition normal :: "MaterialHelper \<Rightarrow> real \<times> real \<Rightarrow> socket \<Rightarrow> MaterialHelper" where
  "normal mh loc normal_socket = mh\<lparr>built := built mh @ [Normal loc normal_socket]\<rparr>"

definition occlusion :: "MaterialHelper \<Rightarrow> real \<times> real \<Rightarrow> socket \<Rightarrow> MaterialHelper" where
  "occlusion mh loc occlusion_socket = mh\<lparr>built := built mh @ [Occlusion loc occlusion_socket]\<rparr>"

definition color_factor_and_texture ::
  "MaterialHelper \<Rightarrow> real \<times> real \<Rightarrow> string \<Rightarrow> socket \<Rightarrow> jvalue \<Rightarrow> jvalue \<Rightarrow> MaterialHelper" where
  "color_factor_and_texture mh loc lbl sock factor tex_info =
     mh\<lparr>built := built mh @ [ColorFactorAndTexture loc lbl sock factor tex_info]\<rparr>"

text \<open>
  Modelled from the spec: \<^verbatim>\<open>make_settings_node\<close> (module
  \<^verbatim>\<open>imp.pbrMetallicRoughness\<close>, not part of this unit), which creates the shared
  "settings" node and returns it.
\<close>

definition make_settings_node :: "MaterialHelper \<Rightarrow> nat \<times> MaterialHelper" where
  "make_settings_node mh =
     (let (sn, mh) = nodes_new ''ShaderNodeGroup'' mh
      in (sn, mh\<lparr>built := built mh @ [MakeSettingsNode]\<rparr>))"

text \<open>\<^verbatim>\<open>pbr_specular_glossiness(mh)\<close>.\<close>

definition pbr_specular_glossiness ::
  "(jvalue \<Rightarrow> error + TextureInfo) \<Rightarrow> MaterialHelper \<Rightarrow> outcome" where
  "pbr_specular_glossiness from_dict mh =
     (let ext = get_ext mh ''KHR_materials_pbrSpecularGlossiness'' Map.empty;
          (pbr_node, mh) = nodes_new ''ShaderNodeBsdfPrincipled'' mh;
          (out_node, mh) = nodes_new ''ShaderNodeOutputMaterial'' mh;
          mh = set_attr pbr_node (\<lambda>n. n\<lparr>location := Some (10, 300)\<rparr>) mh;
          mh = set_attr out_node (\<lambda>n. n\<lparr>location := Some (300, 300)\<rparr>) mh;
          mh = links_new (Output pbr_node (Idx 0)) (Input out_node (Idx 0)) mh
      in case calc_locations mh ext of
           Inl e \<Rightarrow> Raised e mh
         | Inr locs \<Rightarrow>
      (case getitem locs ''diffuse'' of
           Inl e \<Rightarrow> Raised e mh
         | Inr loc \<Rightarrow>
      (let mh = base_color mh True loc
                  (Input pbr_node (Name ''Base Color'')) (Input pbr_node (Name ''Alpha''))
       in case getitem locs ''emission'' of
           Inl e \<Rightarrow> Raised e mh
         | Inr loc \<Rightarrow>
      (let mh = emission mh loc
                  (Input pbr_node (Name ''Emission Color''))
                  (Input pbr_node (Name ''Emission Strength''))
       in case getitem locs ''normal'' of
           Inl e \<Rightarrow> Raised e mh
         | Inr loc \<Rightarrow>
      (let mh = normal mh loc (Input pbr_node (Name ''Normal''))
       in case (if occlusion_texture mh \<noteq> None then
                  (let (sn, mh) =
                         (case settings_node mh of
                            None \<Rightarrow>
                              (let (sn, mh) = make_settings_node mh;
                                   mh = mh\<lparr>settings_node := Some sn\<rparr>;
                                   mh = set_attr sn (\<lambda>n. n\<lparr>location := Some (10, 425)\<rparr>) mh;
                                   mh = set_attr sn (\<lambda>n. n\<lparr>width := Some 240\<rparr>) mh
                               in (sn, mh))
                          | Some sn \<Rightarrow> (sn, mh))
                   in case getitem locs ''occlusion'' of
                        Inl e \<Rightarrow> Raised e mh
                      | Inr loc \<Rightarrow>
                          Returned (occlusion mh loc (Input sn (Name ''Occlusion''))))
                else Returned mh) of
           Raised e mh \<Rightarrow> Raised e mh
         | Returned mh \<Rightarrow>
      (let mh = set_default_value (Input pbr_node (Name ''IOR'')) (JNum 1000) mh
       in case getitem locs ''specular'' of
           Inl e \<Rightarrow> Raised e mh
         | Inr loc \<Rightarrow>
      (let mh = color_factor_and_texture mh loc ''Specular Color''
                  (Input pbr_node (Name ''Specular Tint''))
                  (dict_get ext ''specularFactor'' (JArr [JNum 1, JNum 1, JNum 1]))
                  (dict_get ext ''specularGlossinessTexture'' JNull)
       in case getitem locs ''glossiness'' of
           Inl e \<Rightarrow> Raised e mh
         | Inr loc \<Rightarrow>
             glossiness from_dict mh ext loc (Input pbr_node (Name ''Roughness'')))))))))"

section \<open>Vocabulary of the properties\<close>

text \<open>
  The blocks in the order \<^verbatim>\<open>calc_locations\<close> lays them out, and the condition that
  gates each one: the test of the \<^verbatim>\<open>if\<close> that follows the block's assignment and
  moves \<^verbatim>\<open>y\<close> down by the block height.
\<close>

definition block_order :: "string list" where
  "block_order =
     [''occlusion'', ''diffuse'', ''glossiness'', ''normal'', ''specular'', ''emission'']"

definition active :: "MaterialHelper \<Rightarrow> ext_dict \<Rightarrow> string \<Rightarrow> bool" where
  "active mh ext block =
     (if block = ''occlusion'' then occlusion_texture mh \<noteq> None
      else if block = ''diffuse'' then dict_in ''diffuseTexture'' ext \<or> vertex_color mh
      else if block = ''glossiness'' then dict_in ''specularGlossinessTexture'' ext
      else if block = ''normal'' then normal_texture mh \<noteq> None
      else if block = ''specular'' then dict_in ''specularGlossinessTexture'' ext
      else if block = ''emission'' then needs_emissive mh
      else False)"

text \<open>One step down the stack: \<^verbatim>\<open>if active: y -= height\<close>.\<close>

definition advance :: "bool \<Rightarrow> real \<Rightarrow> real" where
  "advance a y = (if a then y - 460 else y)"

text \<open>The source's \<^verbatim>\<open>total_height = -y\<close>, for the \<^verbatim>\<open>y\<close> the stacking ends with.\<close>

definition total_height :: "MaterialHelper \<Rightarrow> ext_dict \<Rightarrow> real" where
  "total_height mh ext = - snd (stack_blocks mh ext)"

text \<open>A layout with every block's y-coordinate shifted by the same amount.\<close>

definition shift_y :: "real \<Rightarrow> locs \<Rightarrow> locs" where
  "shift_y off locs = map (\<lambda>(key, (cur_x, cur_y)). (key, (cur_x, cur_y + off))) locs"

text \<open>The math nodes of a graph, and the two kinds of node the converter creates.\<close>

definition math_nodes :: "MaterialHelper \<Rightarrow> node list" where
  "math_nodes mh = filter (\<lambda>n. bl_idname n = ''ShaderNodeMath'') (nodes mh)"

definition math_node :: "string \<Rightarrow> string \<Rightarrow> real \<times> real \<Rightarrow> node" where
  "math_node lbl opn loc =
     \<lparr>bl_idname = ''ShaderNodeMath'', label = Some lbl, operation = Some opn,
      location = Some loc, width = None, use_clamp = Some True, image = None,
      is_data = None\<rparr>"

definition image_node :: "string \<Rightarrow> real \<times> real \<Rightarrow> TextureInfo \<Rightarrow> bool \<Rightarrow> node" where
  "image_node lbl loc ti data =
     \<lparr>bl_idname = ''ShaderNodeTexImage'', label = Some lbl, operation = None,
      location = Some loc, width = None, use_clamp = None, image = Some ti,
      is_data = Some data\<rparr>"

text \<open>Concrete inputs: a helper for a material with no textures, and a texture parser.\<close>

definition bare_helper :: MaterialHelper where
  "bare_helper =
     \<lparr>nodes = [], links = [], default_value = Map.empty, settings_node = None,
      occlusion_texture = None, normal_texture = None, vertex_color = False,
      needs_emissive = False, extensions = Map.empty, built = []\<rparr>"

text \<open>The helper once the principled shader node (handle 0) is in the graph.\<close>

definition shader_helper :: MaterialHelper where
  "shader_helper = snd (nodes_new ''ShaderNodeBsdfPrincipled'' bare_helper)"

text \<open>A material painted with vertex colours that also emits light, with no textures.\<close>

definition vc_helper :: MaterialHelper where
  "vc_helper = bare_helper\<lparr>vertex_color := True, needs_emissive := True\<rparr>"

definition sample_texture :: TextureInfo where
  "sample_texture = \<lparr>index = 0, tex_coord = None\<rparr>"

fun sample_from_dict :: "jvalue \<Rightarrow> error + TextureInfo" where
  "sample_from_dict (JObj kvs) = Inr sample_texture"
| "sample_from_dict v = Inl AssertionError"

text \<open>
  Extensions: no key at all, a texture bound, a texture with the factor 0.5, a texture
  key of \<^verbatim>\<open>None\<close>.
\<close>

definition empty_ext :: ext_dict where
  "empty_ext = Map.empty"

definition textured_ext :: ext_dict where
  "textured_ext = [''specularGlossinessTexture'' \<mapsto> JObj [(''index'', JNum 0)]]"

definition scaled_ext :: ext_dict where
  "scaled_ext = [''specularGlossinessTexture'' \<mapsto> JObj [(''index'', JNum 0)],
                 ''glossinessFactor'' \<mapsto> JNum 0.5]"

definition null_texture_ext :: ext_dict where
  "null_texture_ext = [''specularGlossinessTexture'' \<mapsto> JNull]"

text \<open>
  An extension whose glossiness factor is written as the integer \<open>10 ^ 309\<close>, which is
  beyond the float range.
\<close>

definition huge_factor_ext :: ext_dict where
  "huge_factor_ext = [''glossinessFactor'' \<mapsto> JNum (10 ^ 309)]"

text \<open>
  The nodes the assembly creates, as they stand when it is done with them: the
  principled shader, the material output and a new settings node.
\<close>

definition shader_node :: node where
  "shader_node = \<lparr>bl_idname = ''ShaderNodeBsdfPrincipled'', label = None, operation = None,
      location = Some (10, 300), width = None, use_clamp = None, image = None, is_data = None\<rparr>"

definition output_node :: node where
  "output_node = \<lparr>bl_idname = ''ShaderNodeOutputMaterial'', label = None, operation = None,
      location = Some (300, 300), width = None, use_clamp = None, image = None, is_data = None\<rparr>"

definition group_node :: node where
  "group_node = \<lparr>bl_idname = ''ShaderNodeGroup'', label = None, operation = None,
      location = Some (10, 425), width = Some 240, use_clamp = None, image = None, is_data = None\<rparr>"

text \<open>
  The builds the assembly delegates before the converter runs: base colour, emission and
  normal; then the occlusion part, which depends on the helper; then the specular colour.
\<close>

definition builds_before :: "nat \<Rightarrow> real \<times> real \<Rightarrow> real \<times> real \<Rightarrow> real \<times> real \<Rightarrow> call list" where
  "builds_before p loc_d loc_e loc_n =
     [BaseColor True loc_d (Input p (Name ''Base Color'')) (Input p (Name ''Alpha'')),
      Emission loc_e (Input p (Name ''Emission Color'')) (Input p (Name ''Emission Strength'')),
      Normal loc_n (Input p (Name ''Normal''))]"

definition occlusion_builds :: "MaterialHelper \<Rightarrow> real \<times> real \<Rightarrow> call list" where
  "occlusion_builds mh loc_o =
     (case occlusion_texture mh of
        None \<Rightarrow> []
      | Some t \<Rightarrow>
          (case settings_node mh of
             None \<Rightarrow> [MakeSettingsNode,
                      Occlusion loc_o (Input (length (nodes mh) + 2) (Name ''Occlusion''))]
           | Some sn \<Rightarrow> [Occlusion loc_o (Input sn (Name ''Occlusion''))]))"

definition specular_build :: "nat \<Rightarrow> real \<times> real \<Rightarrow> ext_dict \<Rightarrow> call" where
  "specular_build p loc_s ext =
     ColorFactorAndTexture loc_s ''Specular Color'' (Input p (Name ''Specular Tint''))
       (dict_get ext ''specularFactor'' (JArr [JNum 1, JNum 1, JNum 1]))
       (dict_get ext ''specularGlossinessTexture'' JNull)"

text \<open>
  Materials with an occlusion texture: one whose helper has no settings node yet, and
  one whose helper already carries a settings node (handle 0) placed by somebody else.
\<close>

definition occluded_helper :: MaterialHelper where
  "occluded_helper = bare_helper\<lparr>occlusion_texture := Some sample_texture\<rparr>"

definition stale_node :: node where
  "stale_node = \<lparr>bl_idname = ''ShaderNodeGroup'', label = None, operation = None,
      location = Some (- 600, 0), width = Some 180, use_clamp = None, image = None,
      is_data = None\<rparr>"

definition settings_helper :: MaterialHelper where
  "settings_helper =
     bare_helper\<lparr>nodes := [stale_node], settings_node := Some 0,
                 occlusion_texture := Some sample_texture\<rparr>"

section \<open>The layout calculator\<close>

lemma stack_blocks_eq:
  "stack_blocks mh ext =
    (let y1 = advance (active mh ext ''occlusion'') 0;
         y2 = advance (active mh ext ''diffuse'') y1;
         y3 = advance (active mh ext ''glossiness'') y2;
         y4 = advance (active mh ext ''normal'') y3;
         y5 = advance (active mh ext ''specular'') y4;
         y6 = advance (active mh ext ''emission'') y5
     in ([(''occlusion'', (- 200, 0)), (''diffuse'', (- 200, y1)), (''glossiness'', (- 200, y2)),
          (''normal'', (- 200, y3)), (''specular'', (- 200, y4)), (''emission'', (- 200, y5))],
         y6))"
  by (simp add: stack_blocks_def Let_def active_def advance_def)

text \<open>The loop visits each of the six keys once and never misses one.\<close>

lemma center_six:
  "center [''occlusion'', ''diffuse'', ''glossiness'', ''normal'', ''specular'', ''emission''] off
     [(''occlusion'', (x0, y0)), (''diffuse'', (x1, y1)), (''glossiness'', (x2, y2)),
      (''normal'', (x3, y3)), (''specular'', (x4, y4)), (''emission'', (x5, y5))]
   = Inr [(''occlusion'', (x0, y0 + off)), (''diffuse'', (x1, y1 + off)),
          (''glossiness'', (x2, y2 + off)), (''normal'', (x3, y3 + off)),
          (''specular'', (x4, y4 + off)), (''emission'', (x5, y5 + off))]"
  by (simp add: getitem_def)

lemma calc_locations_shift:
  "calc_locations mh ext =
     Inr (shift_y (if 0 < total_height mh ext then total_height mh ext / 2 - 20 else 0)
            (fst (stack_blocks mh ext)))"
  unfolding calc_locations_def total_height_def
  by (simp add: stack_blocks_eq Let_def center_six shift_y_def del: center.simps)

lemma total_height_active:
  "total_height mh ext = 460 * real (length (filter (active mh ext) block_order))"
  by (simp add: total_height_def stack_blocks_eq Let_def advance_def block_order_def)

lemma calc_locations_explicit:
  "calc_locations mh ext =
    (let y1 = advance (active mh ext ''occlusion'') 0;
         y2 = advance (active mh ext ''diffuse'') y1;
         y3 = advance (active mh ext ''glossiness'') y2;
         y4 = advance (active mh ext ''normal'') y3;
         y5 = advance (active mh ext ''specular'') y4;
         y6 = advance (active mh ext ''emission'') y5;
         off = (if y6 < 0 then - y6 / 2 - 20 else 0)
     in Inr [(''occlusion'', (- 200, 0 + off)), (''diffuse'', (- 200, y1 + off)),
             (''glossiness'', (- 200, y2 + off)), (''normal'', (- 200, y3 + off)),
             (''specular'', (- 200, y4 + off)), (''emission'', (- 200, y5 + off))])"
  unfolding calc_locations_def
  by (simp add: stack_blocks_eq Let_def center_six del: center.simps)

text \<open>The function never raises, and every key the assembly reads is there.\<close>

lemma calc_locations_total:
  "\<exists>ld le ln lo ls lg locs. calc_locations mh ext = Inr locs \<and>
     getitem locs ''diffuse'' = Inr ld \<and> getitem locs ''emission'' = Inr le \<and>
     getitem locs ''normal'' = Inr ln \<and> getitem locs ''occlusion'' = Inr lo \<and>
     getitem locs ''specular'' = Inr ls \<and> getitem locs ''glossiness'' = Inr lg"
  by (simp add: calc_locations_explicit Let_def getitem_def)

lemma lt6: "(i::nat) < 6 \<longleftrightarrow> i = 0 \<or> i = 1 \<or> i = 2 \<or> i = 3 \<or> i = 4 \<or> i = 5"
  by auto

lemma lt5: "(i::nat) < 5 \<longleftrightarrow> i = 0 \<or> i = 1 \<or> i = 2 \<or> i = 3 \<or> i = 4"
  by auto

lemma advance_le: "advance a y \<le> y"
  by (simp add: advance_def)

lemma advance_active: "a \<Longrightarrow> advance a y + 460 \<le> y"
  by (simp add: advance_def)

text \<open>
  C7. In the mapping \<^verbatim>\<open>calc_locations\<close> returns (it always returns one), any two
  distinct blocks whose gating conditions hold have y-coordinates at least the block
  height of 460 apart, and a block whose gating condition fails has the very location of
  the block after it.
\<close>

theorem calc_locations_no_overlap:
  "\<exists>locs. calc_locations mh ext = Inr locs \<and>
     (\<forall>i j. i < length block_order \<and> j < length block_order \<and> i \<noteq> j \<and>
            active mh ext (block_order ! i) \<and> active mh ext (block_order ! j) \<longrightarrow>
        (\<exists>xi yi xj yj. getitem locs (block_order ! i) = Inr (xi, yi) \<and>
                       getitem locs (block_order ! j) = Inr (xj, yj) \<and>
                       460 \<le> \<bar>yi - yj\<bar>)) \<and>
     (\<forall>i. Suc i < length block_order \<and> \<not> active mh ext (block_order ! i) \<longrightarrow>
        (\<exists>p. getitem locs (block_order ! i) = Inr p \<and>
             getitem locs (block_order ! Suc i) = Inr p))"
proof -
  define a0 where "a0 = active mh ext ''occlusion''"
  define a1 where "a1 = active mh ext ''diffuse''"
  define a2 where "a2 = active mh ext ''glossiness''"
  define a3 where "a3 = active mh ext ''normal''"
  define a4 where "a4 = active mh ext ''specular''"
  define a5 where "a5 = active mh ext ''emission''"
  define y1 where "y1 = advance a0 0"
  define y2 where "y2 = advance a1 y1"
  define y3 where "y3 = advance a2 y2"
  define y4 where "y4 = advance a3 y3"
  define y5 where "y5 = advance a4 y4"
  define y6 where "y6 = advance a5 y5"
  define off where "off = (if y6 < 0 then - y6 / 2 - 20 else 0)"
  define locs where
    "locs = [(''occlusion'', (- 200 :: real, 0 + off)), (''diffuse'', (- 200, y1 + off)),
             (''glossiness'', (- 200, y2 + off)), (''normal'', (- 200, y3 + off)),
             (''specular'', (- 200, y4 + off)), (''emission'', (- 200, y5 + off))]"
  have calc: "calc_locations mh ext = Inr locs"
    by (simp add: calc_locations_explicit Let_def locs_def off_def y6_def y5_def y4_def y3_def
          y2_def y1_def a0_def a1_def a2_def a3_def a4_def a5_def)
  have g: "getitem locs ''occlusion'' = Inr (- 200, 0 + off)"
          "getitem locs ''diffuse'' = Inr (- 200, y1 + off)"
          "getitem locs ''glossiness'' = Inr (- 200, y2 + off)"
          "getitem locs ''normal'' = Inr (- 200, y3 + off)"
          "getitem locs ''specular'' = Inr (- 200, y4 + off)"
          "getitem locs ''emission'' = Inr (- 200, y5 + off)"
    by (simp_all add: getitem_def locs_def)
  have mono: "y1 \<le> 0" "y2 \<le> y1" "y3 \<le> y2" "y4 \<le> y3" "y5 \<le> y4"
    by (simp_all add: y1_def y2_def y3_def y4_def y5_def advance_le)
  have step: "a0 \<Longrightarrow> y1 + 460 \<le> 0" "a1 \<Longrightarrow> y2 + 460 \<le> y1" "a2 \<Longrightarrow> y3 + 460 \<le> y2"
             "a3 \<Longrightarrow> y4 + 460 \<le> y3" "a4 \<Longrightarrow> y5 + 460 \<le> y4"
    by (simp_all add: y1_def y2_def y3_def y4_def y5_def advance_active)
  have same: "\<not> a0 \<Longrightarrow> y1 = 0" "\<not> a1 \<Longrightarrow> y2 = y1" "\<not> a2 \<Longrightarrow> y3 = y2"
             "\<not> a3 \<Longrightarrow> y4 = y3" "\<not> a4 \<Longrightarrow> y5 = y4"
    by (simp_all add: y1_def y2_def y3_def y4_def y5_def advance_def)
  have nth: "block_order ! 0 = ''occlusion''" "block_order ! 1 = ''diffuse''"
            "block_order ! 2 = ''glossiness''" "block_order ! 3 = ''normal''"
            "block_order ! 4 = ''specular''" "block_order ! 5 = ''emission''"
            "block_order ! Suc 0 = ''diffuse''"
            "length block_order = 6"
    by (simp_all add: block_order_def)
  have act: "active mh ext ''occlusion'' = a0" "active mh ext ''diffuse'' = a1"
            "active mh ext ''glossiness'' = a2" "active mh ext ''normal'' = a3"
            "active mh ext ''specular'' = a4" "active mh ext ''emission'' = a5"
    by (simp_all add: a0_def a1_def a2_def a3_def a4_def a5_def)
  have apart: "\<forall>i j. i < length block_order \<and> j < length block_order \<and> i \<noteq> j \<and>
            active mh ext (block_order ! i) \<and> active mh ext (block_order ! j) \<longrightarrow>
        (\<exists>xi yi xj yj. getitem locs (block_order ! i) = Inr (xi, yi) \<and>
                       getitem locs (block_order ! j) = Inr (xj, yj) \<and>
                       460 \<le> \<bar>yi - yj\<bar>)"
  proof (intro allI impI)
    fix i j
    assume h: "i < length block_order \<and> j < length block_order \<and> i \<noteq> j \<and>
            active mh ext (block_order ! i) \<and> active mh ext (block_order ! j)"
    then have "i < 6" "j < 6" by (simp_all add: nth)
    then consider "i = 0" | "i = 1" | "i = 2" | "i = 3" | "i = 4" | "i = 5"
      by (auto simp: lt6)
    then show "\<exists>xi yi xj yj. getitem locs (block_order ! i) = Inr (xi, yi) \<and>
                       getitem locs (block_order ! j) = Inr (xj, yj) \<and>
                       460 \<le> \<bar>yi - yj\<bar>"
      using h \<open>j < 6\<close> mono step
      by cases (auto simp: lt6 nth g act)
  qed
  have shared: "\<forall>i. Suc i < length block_order \<and> \<not> active mh ext (block_order ! i) \<longrightarrow>
        (\<exists>p. getitem locs (block_order ! i) = Inr p \<and>
             getitem locs (block_order ! Suc i) = Inr p)"
  proof (intro allI impI)
    fix i
    assume h: "Suc i < length block_order \<and> \<not> active mh ext (block_order ! i)"
    then have "i < 5" by (simp add: nth)
    then consider "i = 0" | "i = 1" | "i = 2" | "i = 3" | "i = 4"
      by (auto simp: lt5)
    then show "\<exists>p. getitem locs (block_order ! i) = Inr p \<and>
                   getitem locs (block_order ! Suc i) = Inr p"
    proof cases
      case 1
      with h same show ?thesis by (simp add: nth g act)
    next
      case 2
      have "block_order ! Suc 1 = ''glossiness''" by (simp add: block_order_def)
      with 2 h same show ?thesis by (simp add: nth g act)
    next
      case 3
      have "block_order ! Suc 2 = ''normal''" by (simp add: block_order_def)
      with 3 h same show ?thesis by (simp add: nth g act)
    next
      case 4
      have "block_order ! Suc 3 = ''specular''" by (simp add: block_order_def)
      with 4 h same show ?thesis by (simp add: nth g act)
    next
      case 5
      have "block_order ! Suc 4 = ''emission''" by (simp add: block_order_def)
      with 5 h same show ?thesis by (simp add: nth g act)
    qed
  qed
  from calc apart shared show ?thesis by blast
qed

text \<open>
  The theorem at a material with vertex colours and emission and an empty extension:
  the diffuse and emission blocks are active and 460 apart, the inactive occlusion block
  sits where the diffuse block does.
\<close>

theorem calc_locations_no_overlap_witness:
  "\<exists>locs. calc_locations vc_helper Map.empty = Inr locs \<and>
     (\<exists>xi yi xj yj. getitem locs ''diffuse'' = Inr (xi, yi) \<and>
                    getitem locs ''emission'' = Inr (xj, yj) \<and> 460 \<le> \<bar>yi - yj\<bar>) \<and>
     (\<exists>p. getitem locs ''occlusion'' = Inr p \<and> getitem locs ''diffuse'' = Inr p)"
proof -
  obtain locs where calc: "calc_locations vc_helper Map.empty = Inr locs"
    and apart: "\<forall>i j. i < length block_order \<and> j < length block_order \<and> i \<noteq> j \<and>
            active vc_helper Map.empty (block_order ! i) \<and>
            active vc_helper Map.empty (block_order ! j) \<longrightarrow>
        (\<exists>xi yi xj yj. getitem locs (block_order ! i) = Inr (xi, yi) \<and>
                       getitem locs (block_order ! j) = Inr (xj, yj) \<and>
                       460 \<le> \<bar>yi - yj\<bar>)"
    and shared: "\<forall>i. Suc i < length block_order \<and>
            \<not> active vc_helper Map.empty (block_order ! i) \<longrightarrow>
        (\<exists>p. getitem locs (block_order ! i) = Inr p \<and>
             getitem locs (block_order ! Suc i) = Inr p)"
    using calc_locations_no_overlap [of vc_helper Map.empty] by blast
  have "\<exists>xi yi xj yj. getitem locs ''diffuse'' = Inr (xi, yi) \<and>
                    getitem locs ''emission'' = Inr (xj, yj) \<and> 460 \<le> \<bar>yi - yj\<bar>"
    using apart [rule_format, of 1 5]
    by (simp add: block_order_def active_def vc_helper_def bare_helper_def)
  moreover have "\<exists>p. getitem locs ''occlusion'' = Inr p \<and> getitem locs ''diffuse'' = Inr p"
    using shared [rule_format, of 0]
    by (simp add: block_order_def active_def vc_helper_def bare_helper_def)
  ultimately show ?thesis using calc by blast
qed

text \<open>
  The statement of C6 read literally, a shift by half the total stacked height minus 20
  for every helper and extension, fails for a material with no active block: the total
  height is 0, the guard \<^verbatim>\<open>if total_height > 0 else 0\<close> leaves every block at
  y = 0, and the literal reading would put them at y = -20.
\<close>

theorem centering_offset_counterexample:
  "calc_locations bare_helper empty_ext \<noteq>
     Inr (shift_y (total_height bare_helper empty_ext / 2 - 20)
            (fst (stack_blocks bare_helper empty_ext)))"
  by (simp add: calc_locations_explicit stack_blocks_eq total_height_def shift_y_def Let_def
        active_def advance_def bare_helper_def dict_in_def empty_ext_def)

text \<open>
  C6, amended. \<^verbatim>\<open>calc_locations\<close> returns the stacked layout with every block's
  y-coordinate shifted by the same offset: half the total stacked height minus 20 when
  the total height is positive (at least one block is active), and 0 when no block is
  active. The total height is 460 for each active block. The stack starts with the
  occlusion block, which ends up at the offset, and the y the stacking ends with ends up
  at the offset minus the total height: with an active block the stack reaches from
  half the total height minus 20 down to minus half the total height minus 20.
\<close>

theorem calc_locations_centering:
  "(let h = total_height mh ext;
        off = (if 0 < h then h / 2 - 20 else 0)
    in calc_locations mh ext = Inr (shift_y off (fst (stack_blocks mh ext))) \<and>
       h = 460 * real (length (filter (active mh ext) block_order)) \<and>
       map fst (fst (stack_blocks mh ext)) = block_order \<and>
       getitem (shift_y off (fst (stack_blocks mh ext))) ''occlusion'' = Inr (- 200, off) \<and>
       snd (stack_blocks mh ext) + off = off - h)"
proof -
  have "getitem (shift_y off (fst (stack_blocks mh ext))) ''occlusion'' = Inr (- 200, off)"
    and "map fst (fst (stack_blocks mh ext)) = block_order" for off
    by (simp_all add: stack_blocks_eq Let_def block_order_def getitem_def shift_y_def)
  moreover have "snd (stack_blocks mh ext) + off = off - total_height mh ext" for off
    by (simp add: total_height_def)
  ultimately show ?thesis
    using calc_locations_shift [of mh ext] total_height_active [of mh ext]
    by (simp add: Let_def)
qed

text \<open>
  The theorem at a material with vertex colours and emission (two active blocks, total
  height 920, shift 440) and at a material with no active block (shift 0).
\<close>

theorem calc_locations_centering_witness:
  "calc_locations vc_helper empty_ext =
     Inr [(''occlusion'', (- 200, 440)), (''diffuse'', (- 200, 440)),
          (''glossiness'', (- 200, - 20)), (''normal'', (- 200, - 20)),
          (''specular'', (- 200, - 20)), (''emission'', (- 200, - 20))] \<and>
   total_height vc_helper empty_ext = 920 \<and>
   calc_locations bare_helper empty_ext =
     Inr [(''occlusion'', (- 200, 0)), (''diffuse'', (- 200, 0)),
          (''glossiness'', (- 200, 0)), (''normal'', (- 200, 0)),
          (''specular'', (- 200, 0)), (''emission'', (- 200, 0))] \<and>
   total_height bare_helper empty_ext = 0"
  using calc_locations_centering [of vc_helper empty_ext]
        calc_locations_centering [of bare_helper empty_ext]
  by (simp add: stack_blocks_eq total_height_def shift_y_def Let_def active_def advance_def vc_helper_def
        bare_helper_def dict_in_def block_order_def empty_ext_def)

section \<open>The glossiness-to-roughness converter\<close>

text \<open>The numbers met in practice convert to a float.\<close>

lemma float_limit: "(1000 :: real) < 2 ^ 1024 - 2 ^ 970"
  by simp

lemma converts_to_float_small [simp]: "\<bar>r\<bar> \<le> 1000 \<Longrightarrow> converts_to_float r"
  using float_limit by (simp add: converts_to_float_def)

lemma py_clamp: "py_max 0 (py_min 1 d) = clamp d 0 1"
  by (simp add: py_max_def py_min_def clamp_def)

lemma glossiness_plain:
  assumes "\<not> truthy (dict_get ext ''specularGlossinessTexture'' JNull)"
  shows "glossiness from_dict mh ext loc roughness_socket =
           (case py_rsub 1 (dict_get ext ''glossinessFactor'' (JNum 1)) of
              Inl e \<Rightarrow> Raised e mh
            | Inr d \<Rightarrow> Returned (mh\<lparr>default_value :=
                         (default_value mh)(roughness_socket \<mapsto> JNum (clamp d 0 1))\<rparr>))"
  using assms
  by (cases loc) (simp add: glossiness_def set_default_value_def py_clamp split: sum.splits)

lemma glossiness_parse_error:
  assumes "truthy (dict_get ext ''specularGlossinessTexture'' JNull)"
      and "from_dict (dict_get ext ''specularGlossinessTexture'' JNull) = Inl e"
  shows "glossiness from_dict mh ext loc roughness_socket = Raised e mh"
  using assms by (simp add: glossiness_def)

lemma glossiness_textured_one:
  assumes "truthy (dict_get ext ''specularGlossinessTexture'' JNull)"
      and "from_dict (dict_get ext ''specularGlossinessTexture'' JNull) = Inr ti"
      and "\<not> py_ne (dict_get ext ''glossinessFactor'' (JNum 1)) 1"
  shows "glossiness from_dict mh ext (x, y) roughness_socket =
           Returned (mh\<lparr>
             nodes := nodes mh @
               [math_node ''1 - Glossiness'' ''SUBTRACT'' (x - 140, y - 50),
                image_node ''SPECULAR GLOSSINESS'' (x - 340, y) ti True],
             links := links mh @
               [(Output (length (nodes mh)) (Idx 0), roughness_socket),
                (Output (length (nodes mh) + 1) (Name ''Alpha''), Input (length (nodes mh)) (Idx 1))],
             default_value := (default_value mh)(Input (length (nodes mh)) (Idx 0) \<mapsto> JNum 1)\<rparr>)"
  using assms
  by (simp add: glossiness_def texture_def nodes_new_def set_attr_def links_new_def
        set_default_value_def math_node_def image_node_def nth_append)

lemma glossiness_textured_scaled:
  assumes "truthy (dict_get ext ''specularGlossinessTexture'' JNull)"
      and "from_dict (dict_get ext ''specularGlossinessTexture'' JNull) = Inr ti"
      and "py_ne (dict_get ext ''glossinessFactor'' (JNum 1)) 1"
  shows "glossiness from_dict mh ext (x, y) roughness_socket =
           Returned (mh\<lparr>
             nodes := nodes mh @
               [math_node ''1 - Glossiness'' ''SUBTRACT'' (x - 140, y - 50),
                math_node ''Glossiness Factor'' ''MULTIPLY'' (x - 340, y),
                image_node ''SPECULAR GLOSSINESS'' (x - 540, y) ti True],
             links := links mh @
               [(Output (length (nodes mh)) (Idx 0), roughness_socket),
                (Output (length (nodes mh) + 1) (Idx 0), Input (length (nodes mh)) (Idx 1)),
                (Output (length (nodes mh) + 2) (Name ''Alpha''), Input (length (nodes mh) + 1) (Idx 0))],
             default_value := (default_value mh)
                (Input (length (nodes mh)) (Idx 0) \<mapsto> JNum 1,
                 Input (length (nodes mh) + 1) (Idx 1) \<mapsto> dict_get ext ''glossinessFactor'' (JNum 1))\<rparr>)"
  using assms
  by (simp add: glossiness_def texture_def nodes_new_def set_attr_def links_new_def
        set_default_value_def math_node_def image_node_def nth_append)

text \<open>What the converter leaves alone, whatever path it takes.\<close>

lemma glossiness_frame:
  "built (state_of (glossiness from_dict mh ext loc rs)) = built mh \<and>
   settings_node (state_of (glossiness from_dict mh ext loc rs)) = settings_node mh \<and>
   occlusion_texture (state_of (glossiness from_dict mh ext loc rs)) = occlusion_texture mh \<and>
   take (length (nodes mh)) (nodes (state_of (glossiness from_dict mh ext loc rs))) = nodes mh \<and>
   length (nodes mh) \<le> length (nodes (state_of (glossiness from_dict mh ext loc rs)))"
proof (cases "truthy (dict_get ext ''specularGlossinessTexture'' JNull)")
  case False
  then show ?thesis by (simp add: glossiness_plain split: sum.splits)
next
  case True
  show ?thesis
  proof (cases "from_dict (dict_get ext ''specularGlossinessTexture'' JNull)")
    case (Inl e)
    with True show ?thesis by (simp add: glossiness_parse_error)
  next
    case (Inr ti)
    obtain x y where loc: "loc = (x, y)" by (cases loc)
    show ?thesis
    proof (cases "py_ne (dict_get ext ''glossinessFactor'' (JNum 1)) 1")
      case True
      with \<open>truthy _\<close> Inr loc show ?thesis by (simp add: glossiness_textured_scaled)
    next
      case False
      with \<open>truthy _\<close> Inr loc show ?thesis by (simp add: glossiness_textured_one)
    qed
  qed
qed

lemma glossiness_named_default:
  assumes "rs \<noteq> Input h (Name nm)"
  shows "default_value (state_of (glossiness from_dict mh ext loc rs)) (Input h (Name nm))
           = default_value mh (Input h (Name nm))"
proof (cases "truthy (dict_get ext ''specularGlossinessTexture'' JNull)")
  case False
  then show ?thesis using assms by (simp add: glossiness_plain split: sum.splits)
next
  case True
  show ?thesis
  proof (cases "from_dict (dict_get ext ''specularGlossinessTexture'' JNull)")
    case (Inl e)
    with True show ?thesis by (simp add: glossiness_parse_error)
  next
    case (Inr ti)
    obtain x y where loc: "loc = (x, y)" by (cases loc)
    show ?thesis
    proof (cases "py_ne (dict_get ext ''glossinessFactor'' (JNum 1)) 1")
      case True
      with \<open>truthy _\<close> Inr loc show ?thesis by (simp add: glossiness_textured_scaled)
    next
      case False
      with \<open>truthy _\<close> Inr loc show ?thesis by (simp add: glossiness_textured_one)
    qed
  qed
qed

lemma nth_of_take: "take k xs = ys \<Longrightarrow> i < length ys \<Longrightarrow> xs ! i = ys ! i"
  by (metis length_take min_less_iff_conj nth_take)

lemma glossiness_nth:
  assumes "i < length (nodes mh)"
  shows "nodes (state_of (glossiness from_dict mh ext loc rs)) ! i = nodes mh ! i"
proof -
  have "take (length (nodes mh)) (nodes (state_of (glossiness from_dict mh ext loc rs)))
          = nodes mh"
    using glossiness_frame [of from_dict mh ext loc rs] by blast
  then show ?thesis using assms by (rule nth_of_take)
qed

text \<open>An absent key behaves as the key bound to its default.\<close>

lemma glossiness_default_factor:
  assumes "ext ''glossinessFactor'' = None"
  shows "glossiness from_dict mh ext loc rs =
           glossiness from_dict mh (ext(''glossinessFactor'' \<mapsto> JNum 1)) loc rs"
  using assms by (simp add: glossiness_def dict_get_def)

lemma glossiness_default_texture:
  assumes "ext ''specularGlossinessTexture'' = None"
  shows "glossiness from_dict mh ext loc rs =
           glossiness from_dict mh (ext(''specularGlossinessTexture'' \<mapsto> JNull)) loc rs"
  using assms by (simp add: glossiness_def dict_get_def)

text \<open>The converter raises only on a value that is present and malformed.\<close>

lemma glossiness_raised:
  assumes "raised (glossiness from_dict mh ext loc rs)"
  shows "(\<exists>v. ext ''glossinessFactor'' = Some v \<and> isl (py_rsub 1 v)) \<or>
         (\<exists>v. ext ''specularGlossinessTexture'' = Some v \<and> truthy v \<and> isl (from_dict v))"
proof (cases "truthy (dict_get ext ''specularGlossinessTexture'' JNull)")
  case False
  with assms show ?thesis
    by (auto simp: glossiness_plain dict_get_def split: sum.splits option.splits)
next
  case True
  obtain x y where loc: "loc = (x, y)" by (cases loc)
  show ?thesis
  proof (cases "from_dict (dict_get ext ''specularGlossinessTexture'' JNull)")
    case (Inl e)
    with True show ?thesis by (auto simp: dict_get_def split: option.splits)
  next
    case (Inr ti)
    with True assms loc show ?thesis
      by (cases "py_ne (dict_get ext ''glossinessFactor'' (JNum 1)) 1")
         (simp_all add: glossiness_textured_scaled glossiness_textured_one)
  qed
qed

text \<open>
  The statement of C1 read literally, the roughness set to \<open>clamp (1 - factor) 0 1\<close>
  for every extension without a texture, fails for a factor written as an integer
  beyond the float range: \<^verbatim>\<open>1.0 - factor\<close> raises \<^verbatim>\<open>OverflowError\<close>, the module
  validates nothing and the exception leaves the converter with the roughness socket
  untouched, where the literal reading would have it set to 0.
\<close>

theorem glossiness_overflow_counterexample:
  "glossiness sample_from_dict shader_helper huge_factor_ext (- 200, 0)
       (Input 0 (Name ''Roughness''))
     = Raised OverflowError shader_helper \<and>
   glossiness sample_from_dict shader_helper huge_factor_ext (- 200, 0)
       (Input 0 (Name ''Roughness''))
     \<noteq> Returned (shader_helper\<lparr>default_value :=
           [Input 0 (Name ''Roughness'') \<mapsto> JNum (clamp (1 - 10 ^ 309) 0 1)]\<rparr>)"
proof -
  have "\<not> truthy (dict_get huge_factor_ext ''specularGlossinessTexture'' JNull)"
    by (simp add: huge_factor_ext_def dict_get_def)
  then have "glossiness sample_from_dict shader_helper huge_factor_ext (- 200, 0)
       (Input 0 (Name ''Roughness'')) = Raised OverflowError shader_helper"
    by (simp add: glossiness_plain huge_factor_ext_def dict_get_def converts_to_float_def)
  then show ?thesis by simp
qed

text \<open>
  C1, amended. When no texture is bound (\<^verbatim>\<open>ext.get('specularGlossinessTexture')\<close> is
  \<^verbatim>\<open>None\<close>, the key being absent, or another falsy value) and the glossiness factor,
  1.0 when its key is absent, is the number \<open>factor\<close>, the converter creates no node.
  If the factor converts to a float (it is a float, or an integer within the float
  range) the converter returns the helper with nothing changed but the roughness
  socket's default value, set to \<open>clamp (1 - factor) 0 1\<close>; if it is an integer beyond
  the float range the converter raises \<^verbatim>\<open>OverflowError\<close> and changes nothing.
\<close>

theorem glossiness_without_texture:
  assumes "\<not> truthy (dict_get ext ''specularGlossinessTexture'' JNull)"
      and "dict_get ext ''glossinessFactor'' (JNum 1) = JNum factor"
  shows "(if converts_to_float factor
          then glossiness from_dict mh ext loc roughness_socket =
                 Returned (mh\<lparr>default_value :=
                   (default_value mh)(roughness_socket \<mapsto> JNum (clamp (1 - factor) 0 1))\<rparr>) \<and>
               default_value (state_of (glossiness from_dict mh ext loc roughness_socket))
                 roughness_socket = Some (JNum (clamp (1 - factor) 0 1))
          else glossiness from_dict mh ext loc roughness_socket = Raised OverflowError mh) \<and>
         nodes (state_of (glossiness from_dict mh ext loc roughness_socket)) = nodes mh"
  using assms by (simp add: glossiness_plain)

text \<open>
  The theorem at the factors 0.3 and 1.4 and at an extension without the key: the
  roughness is 0.7, 0 (clamped) and 0 (from the default factor 1.0).
\<close>

theorem glossiness_without_texture_witness:
  "glossiness sample_from_dict shader_helper [''glossinessFactor'' \<mapsto> JNum 0.3] (- 200, 0)
       (Input 0 (Name ''Roughness''))
     = Returned (shader_helper\<lparr>default_value := [Input 0 (Name ''Roughness'') \<mapsto> JNum 0.7]\<rparr>) \<and>
   glossiness sample_from_dict shader_helper [''glossinessFactor'' \<mapsto> JNum 1.4] (- 200, 0)
       (Input 0 (Name ''Roughness''))
     = Returned (shader_helper\<lparr>default_value := [Input 0 (Name ''Roughness'') \<mapsto> JNum 0]\<rparr>) \<and>
   glossiness sample_from_dict shader_helper Map.empty (- 200, 0)
       (Input 0 (Name ''Roughness''))
     = Returned (shader_helper\<lparr>default_value := [Input 0 (Name ''Roughness'') \<mapsto> JNum 0]\<rparr>)"
  using glossiness_without_texture
          [of "[''glossinessFactor'' \<mapsto> JNum 0.3]" "0.3" sample_from_dict shader_helper
              "(- 200, 0)" "Input 0 (Name ''Roughness'')"]
        glossiness_without_texture
          [of "[''glossinessFactor'' \<mapsto> JNum 1.4]" "1.4" sample_from_dict shader_helper
              "(- 200, 0)" "Input 0 (Name ''Roughness'')"]
        glossiness_without_texture
          [of Map.empty 1 sample_from_dict shader_helper
              "(- 200, 0)" "Input 0 (Name ''Roughness'')"]
  by (simp add: dict_get_def clamp_def shader_helper_def bare_helper_def nodes_new_def)

text \<open>
  C2. With a texture bound (the value under \<^verbatim>\<open>specularGlossinessTexture\<close> is truthy
  and parses to \<open>ti\<close>) and the glossiness factor equal to 1.0 (given or by default), the
  converter adds exactly two nodes: one math node, a clamped subtract whose input 0 is
  set to 1.0, and the image node of the texture, sampled as non-colour data. It links
  the subtract node's output to the roughness socket and the image node's alpha output
  to the subtract node's input 1. The only math node created is the subtract node.
\<close>

theorem glossiness_texture_factor_one:
  assumes "truthy (dict_get ext ''specularGlossinessTexture'' JNull)"
      and "from_dict (dict_get ext ''specularGlossinessTexture'' JNull) = Inr ti"
      and "dict_get ext ''glossinessFactor'' (JNum 1) = JNum 1"
  shows "glossiness from_dict mh ext (x, y) roughness_socket =
           Returned (mh\<lparr>
             nodes := nodes mh @
               [math_node ''1 - Glossiness'' ''SUBTRACT'' (x - 140, y - 50),
                image_node ''SPECULAR GLOSSINESS'' (x - 340, y) ti True],
             links := links mh @
               [(Output (length (nodes mh)) (Idx 0), roughness_socket),
                (Output (length (nodes mh) + 1) (Name ''Alpha''),
                 Input (length (nodes mh)) (Idx 1))],
             default_value :=
               (default_value mh)(Input (length (nodes mh)) (Idx 0) \<mapsto> JNum 1)\<rparr>) \<and>
         math_nodes (state_of (glossiness from_dict mh ext (x, y) roughness_socket)) =
           math_nodes mh @ [math_node ''1 - Glossiness'' ''SUBTRACT'' (x - 140, y - 50)]"
  using assms
  by (simp add: glossiness_textured_one math_nodes_def math_node_def image_node_def)

text \<open>The theorem at a helper holding the shader node and an extension with a texture.\<close>

theorem glossiness_texture_factor_one_witness:
  "glossiness sample_from_dict shader_helper textured_ext (- 200, 0) (Input 0 (Name ''Roughness''))
     = Returned (shader_helper\<lparr>
         nodes := nodes shader_helper @
           [math_node ''1 - Glossiness'' ''SUBTRACT'' (- 340, - 50),
            image_node ''SPECULAR GLOSSINESS'' (- 540, 0) sample_texture True],
         links := [(Output 1 (Idx 0), Input 0 (Name ''Roughness'')),
                   (Output 2 (Name ''Alpha''), Input 1 (Idx 1))],
         default_value := [Input 1 (Idx 0) \<mapsto> JNum 1]\<rparr>) \<and>
   math_nodes (state_of (glossiness sample_from_dict shader_helper textured_ext (- 200, 0)
       (Input 0 (Name ''Roughness''))))
     = [math_node ''1 - Glossiness'' ''SUBTRACT'' (- 340, - 50)]"
proof -
  have tex: "dict_get textured_ext ''specularGlossinessTexture'' JNull = JObj [(''index'', JNum 0)]"
    and fac: "dict_get textured_ext ''glossinessFactor'' (JNum 1) = JNum 1"
    by (simp_all add: textured_ext_def dict_get_def)
  have len: "length (nodes shader_helper) = 1" "links shader_helper = []"
     "default_value shader_helper = Map.empty" "math_nodes shader_helper = []"
    by (simp_all add: shader_helper_def bare_helper_def nodes_new_def math_nodes_def)
  show ?thesis
    using glossiness_texture_factor_one
          [of textured_ext sample_from_dict sample_texture shader_helper "- 200" 0
              "Input 0 (Name ''Roughness'')"]
    by (simp add: tex fac len math_nodes_def math_node_def image_node_def shader_helper_def
          bare_helper_def nodes_new_def numeral_2_eq_2 numeral_3_eq_3)
qed

text \<open>
  C3. With a texture bound and a glossiness factor that is a number other than 1.0, the
  converter adds exactly three nodes: two math nodes, the clamped subtract (input 0 set
  to 1.0) and a clamped multiply whose input 1 is set to the factor, and the image node
  of the texture. The image node's alpha output feeds input 0 of the multiply node, the
  multiply node's output feeds input 1 of the subtract node, and the subtract node's
  output feeds the roughness socket.
\<close>

theorem glossiness_texture_factor_scaled:
  assumes "truthy (dict_get ext ''specularGlossinessTexture'' JNull)"
      and "from_dict (dict_get ext ''specularGlossinessTexture'' JNull) = Inr ti"
      and "dict_get ext ''glossinessFactor'' (JNum 1) = JNum factor"
      and "factor \<noteq> 1"
  shows "glossiness from_dict mh ext (x, y) roughness_socket =
           Returned (mh\<lparr>
             nodes := nodes mh @
               [math_node ''1 - Glossiness'' ''SUBTRACT'' (x - 140, y - 50),
                math_node ''Glossiness Factor'' ''MULTIPLY'' (x - 340, y),
                image_node ''SPECULAR GLOSSINESS'' (x - 540, y) ti True],
             links := links mh @
               [(Output (length (nodes mh)) (Idx 0), roughness_socket),
                (Output (length (nodes mh) + 1) (Idx 0), Input (length (nodes mh)) (Idx 1)),
                (Output (length (nodes mh) + 2) (Name ''Alpha''),
                 Input (length (nodes mh) + 1) (Idx 0))],
             default_value := (default_value mh)
                (Input (length (nodes mh)) (Idx 0) \<mapsto> JNum 1,
                 Input (length (nodes mh) + 1) (Idx 1) \<mapsto> JNum factor)\<rparr>) \<and>
         math_nodes (state_of (glossiness from_dict mh ext (x, y) roughness_socket)) =
           math_nodes mh @
             [math_node ''1 - Glossiness'' ''SUBTRACT'' (x - 140, y - 50),
              math_node ''Glossiness Factor'' ''MULTIPLY'' (x - 340, y)]"
  using assms
  by (simp add: glossiness_textured_scaled math_nodes_def math_node_def image_node_def)

text \<open>The theorem at the factor 0.5.\<close>

theorem glossiness_texture_factor_scaled_witness:
  "glossiness sample_from_dict shader_helper scaled_ext (- 200, 0) (Input 0 (Name ''Roughness''))
     = Returned (shader_helper\<lparr>
         nodes := nodes shader_helper @
           [math_node ''1 - Glossiness'' ''SUBTRACT'' (- 340, - 50),
            math_node ''Glossiness Factor'' ''MULTIPLY'' (- 540, 0),
            image_node ''SPECULAR GLOSSINESS'' (- 740, 0) sample_texture True],
         links := [(Output 1 (Idx 0), Input 0 (Name ''Roughness'')),
                   (Output 2 (Idx 0), Input 1 (Idx 1)),
                   (Output 3 (Name ''Alpha''), Input 2 (Idx 0))],
         default_value := [Input 1 (Idx 0) \<mapsto> JNum 1, Input 2 (Idx 1) \<mapsto> JNum 0.5]\<rparr>) \<and>
   math_nodes (state_of (glossiness sample_from_dict shader_helper scaled_ext (- 200, 0)
       (Input 0 (Name ''Roughness''))))
     = [math_node ''1 - Glossiness'' ''SUBTRACT'' (- 340, - 50),
        math_node ''Glossiness Factor'' ''MULTIPLY'' (- 540, 0)]"
proof -
  have tex: "dict_get scaled_ext ''specularGlossinessTexture'' JNull = JObj [(''index'', JNum 0)]"
    and fac: "dict_get scaled_ext ''glossinessFactor'' (JNum 1) = JNum 0.5"
    by (simp_all add: scaled_ext_def dict_get_def)
  have len: "length (nodes shader_helper) = 1" "links shader_helper = []"
     "default_value shader_helper = Map.empty" "math_nodes shader_helper = []"
    by (simp_all add: shader_helper_def bare_helper_def nodes_new_def math_nodes_def)
  show ?thesis
    using glossiness_texture_factor_scaled
          [of scaled_ext sample_from_dict sample_texture "0.5" shader_helper "- 200" 0
              "Input 0 (Name ''Roughness'')"]
    by (simp add: tex fac len math_nodes_def math_node_def image_node_def shader_helper_def
          bare_helper_def nodes_new_def numeral_2_eq_2 numeral_3_eq_3)
qed

text \<open>
  C9. When the extension has the key \<^verbatim>\<open>specularGlossinessTexture\<close> with a falsy value,
  the converter takes the path without a texture: it creates no node and no link, and
  either sets the roughness default value (a numeric factor) or raises the
  error of \<^verbatim>\<open>1.0 - factor\<close>. The layout tests the presence of the key: the
  glossiness and specular blocks are active, and the block after each of them (normal,
  emission) lies 460 below it.
\<close>

theorem falsy_texture_value:
  assumes "ext ''specularGlossinessTexture'' = Some v" and "\<not> truthy v"
  shows "nodes (state_of (glossiness from_dict mh ext loc roughness_socket)) = nodes mh \<and>
         links (state_of (glossiness from_dict mh ext loc roughness_socket)) = links mh \<and>
         (case py_rsub 1 (dict_get ext ''glossinessFactor'' (JNum 1)) of
            Inl e \<Rightarrow> glossiness from_dict mh ext loc roughness_socket = Raised e mh
          | Inr d \<Rightarrow> glossiness from_dict mh ext loc roughness_socket =
              Returned (mh\<lparr>default_value :=
                (default_value mh)(roughness_socket \<mapsto> JNum (clamp d 0 1))\<rparr>)) \<and>
         active mh ext ''glossiness'' \<and> active mh ext ''specular'' \<and>
         (\<exists>locs xg yg xn xs ys xe.
            calc_locations mh ext = Inr locs \<and>
            getitem locs ''glossiness'' = Inr (xg, yg) \<and>
            getitem locs ''normal'' = Inr (xn, yg - 460) \<and>
            getitem locs ''specular'' = Inr (xs, ys) \<and>
            getitem locs ''emission'' = Inr (xe, ys - 460))"
proof -
  have falsy: "\<not> truthy (dict_get ext ''specularGlossinessTexture'' JNull)"
    using assms by (simp add: dict_get_def)
  have act: "active mh ext ''glossiness''" "active mh ext ''specular''"
    using assms by (simp_all add: active_def dict_in_def)
  have "\<exists>locs xg yg xn xs ys xe.
            calc_locations mh ext = Inr locs \<and>
            getitem locs ''glossiness'' = Inr (xg, yg) \<and>
            getitem locs ''normal'' = Inr (xn, yg - 460) \<and>
            getitem locs ''specular'' = Inr (xs, ys) \<and>
            getitem locs ''emission'' = Inr (xe, ys - 460)"
    using act by (simp add: calc_locations_explicit Let_def getitem_def advance_def)
  then show ?thesis
    using act by (simp add: glossiness_plain [OF falsy] split: sum.splits)
qed

text \<open>The theorem at an extension whose texture is \<^verbatim>\<open>None\<close>.\<close>

theorem falsy_texture_value_witness:
  "glossiness sample_from_dict shader_helper null_texture_ext (- 200, 440)
       (Input 0 (Name ''Roughness''))
     = Returned (shader_helper\<lparr>default_value := [Input 0 (Name ''Roughness'') \<mapsto> JNum 0]\<rparr>) \<and>
   nodes (state_of (glossiness sample_from_dict shader_helper null_texture_ext (- 200, 440)
       (Input 0 (Name ''Roughness'')))) = nodes shader_helper \<and>
   (\<exists>locs xg yg xn xs ys xe.
      calc_locations shader_helper null_texture_ext = Inr locs \<and>
      getitem locs ''glossiness'' = Inr (xg, yg) \<and>
      getitem locs ''normal'' = Inr (xn, yg - 460) \<and>
      getitem locs ''specular'' = Inr (xs, ys) \<and>
      getitem locs ''emission'' = Inr (xe, ys - 460))"
proof -
  have key: "null_texture_ext ''specularGlossinessTexture'' = Some JNull"
    and falsy: "\<not> truthy JNull"
    by (simp_all add: null_texture_ext_def)
  have fac: "dict_get null_texture_ext ''glossinessFactor'' (JNum 1) = JNum 1"
    by (simp add: null_texture_ext_def dict_get_def)
  show ?thesis
    using falsy_texture_value [of null_texture_ext JNull sample_from_dict shader_helper
            "(- 200, 440)" "Input 0 (Name ''Roughness'')"] key
    by (simp add: fac clamp_def shader_helper_def bare_helper_def nodes_new_def)
qed

section \<open>Graph assembly\<close>

text \<open>The layout reads the helper's material only.\<close>

lemma calc_locations_nodes [simp]:
  "calc_locations (mh\<lparr>nodes := ns\<rparr>) ext = calc_locations mh ext"
  by (simp add: calc_locations_def stack_blocks_def)

lemma calc_locations_links [simp]:
  "calc_locations (mh\<lparr>links := loc_s\<rparr>) ext = calc_locations mh ext"
  by (simp add: calc_locations_def stack_blocks_def)

lemma glossiness_cong:
  "m = m' \<Longrightarrow> glossiness from_dict m ext loc s = glossiness from_dict m' ext loc s"
  by simp

text \<open>
  The assembly is the converter run on the state the earlier steps build. That state
  is written out for the three ways the occlusion part can go.
\<close>

lemma pbr_no_occlusion:
  assumes "occlusion_texture mh = None"
      and "calc_locations mh (get_ext mh ''KHR_materials_pbrSpecularGlossiness'' Map.empty) = Inr locs"
      and "getitem locs ''diffuse'' = Inr loc_d" and "getitem locs ''emission'' = Inr loc_e"
      and "getitem locs ''normal'' = Inr loc_n" and "getitem locs ''specular'' = Inr loc_s"
      and "getitem locs ''glossiness'' = Inr loc_g"
  shows "pbr_specular_glossiness from_dict mh =
           glossiness from_dict
             (mh\<lparr>nodes := nodes mh @ [shader_node, output_node],
                 links := links mh @
                   [(Output (length (nodes mh)) (Idx 0), Input (length (nodes mh) + 1) (Idx 0))],
                 default_value :=
                   (default_value mh)(Input (length (nodes mh)) (Name ''IOR'') \<mapsto> JNum 1000),
                 built := built mh @ builds_before (length (nodes mh)) loc_d loc_e loc_n @
                   [specular_build (length (nodes mh)) loc_s
                      (get_ext mh ''KHR_materials_pbrSpecularGlossiness'' Map.empty)]\<rparr>)
             (get_ext mh ''KHR_materials_pbrSpecularGlossiness'' Map.empty) loc_g
             (Input (length (nodes mh)) (Name ''Roughness''))"
  using assms
  by (simp add: pbr_specular_glossiness_def nodes_new_def set_attr_def links_new_def
        set_default_value_def base_color_def emission_def normal_def
        color_factor_and_texture_def shader_node_def output_node_def builds_before_def
        specular_build_def nth_append list_update_append Let_def)

lemma pbr_reuse_settings:
  assumes "occlusion_texture mh = Some t" and "settings_node mh = Some sn"
      and "calc_locations mh (get_ext mh ''KHR_materials_pbrSpecularGlossiness'' Map.empty) = Inr locs"
      and "getitem locs ''diffuse'' = Inr loc_d" and "getitem locs ''emission'' = Inr loc_e"
      and "getitem locs ''normal'' = Inr loc_n" and "getitem locs ''occlusion'' = Inr loc_o"
      and "getitem locs ''specular'' = Inr loc_s" and "getitem locs ''glossiness'' = Inr loc_g"
  shows "pbr_specular_glossiness from_dict mh =
           glossiness from_dict
             (mh\<lparr>nodes := nodes mh @ [shader_node, output_node],
                 links := links mh @
                   [(Output (length (nodes mh)) (Idx 0), Input (length (nodes mh) + 1) (Idx 0))],
                 default_value :=
                   (default_value mh)(Input (length (nodes mh)) (Name ''IOR'') \<mapsto> JNum 1000),
                 built := built mh @ builds_before (length (nodes mh)) loc_d loc_e loc_n @
                   [Occlusion loc_o (Input sn (Name ''Occlusion'')),
                    specular_build (length (nodes mh)) loc_s
                      (get_ext mh ''KHR_materials_pbrSpecularGlossiness'' Map.empty)]\<rparr>)
             (get_ext mh ''KHR_materials_pbrSpecularGlossiness'' Map.empty) loc_g
             (Input (length (nodes mh)) (Name ''Roughness''))"
  using assms
  by (simp add: pbr_specular_glossiness_def nodes_new_def set_attr_def links_new_def
        set_default_value_def base_color_def emission_def normal_def occlusion_def
        color_factor_and_texture_def shader_node_def output_node_def builds_before_def
        specular_build_def nth_append list_update_append Let_def)

lemma pbr_new_settings:
  assumes "occlusion_texture mh = Some t" and "settings_node mh = None"
      and "calc_locations mh (get_ext mh ''KHR_materials_pbrSpecularGlossiness'' Map.empty) = Inr locs"
      and "getitem locs ''diffuse'' = Inr loc_d" and "getitem locs ''emission'' = Inr loc_e"
      and "getitem locs ''normal'' = Inr loc_n" and "getitem locs ''occlusion'' = Inr loc_o"
      and "getitem locs ''specular'' = Inr loc_s" and "getitem locs ''glossiness'' = Inr loc_g"
  shows "pbr_specular_glossiness from_dict mh =
           glossiness from_dict
             (mh\<lparr>nodes := nodes mh @ [shader_node, output_node, group_node],
                 links := links mh @
                   [(Output (length (nodes mh)) (Idx 0), Input (length (nodes mh) + 1) (Idx 0))],
                 default_value :=
                   (default_value mh)(Input (length (nodes mh)) (Name ''IOR'') \<mapsto> JNum 1000),
                 settings_node := Some (length (nodes mh) + 2),
                 built := built mh @ builds_before (length (nodes mh)) loc_d loc_e loc_n @
                   [MakeSettingsNode,
                    Occlusion loc_o (Input (length (nodes mh) + 2) (Name ''Occlusion'')),
                    specular_build (length (nodes mh)) loc_s
                      (get_ext mh ''KHR_materials_pbrSpecularGlossiness'' Map.empty)]\<rparr>)
             (get_ext mh ''KHR_materials_pbrSpecularGlossiness'' Map.empty) loc_g
             (Input (length (nodes mh)) (Name ''Roughness''))"
  using assms
  apply (simp add: pbr_specular_glossiness_def nodes_new_def set_attr_def links_new_def
        set_default_value_def base_color_def emission_def normal_def occlusion_def
        make_settings_node_def group_node_def
        color_factor_and_texture_def shader_node_def output_node_def builds_before_def
        specular_build_def nth_append list_update_append Let_def)
  apply (rule glossiness_cong)
  apply (rule MaterialHelper.equality)
  apply simp_all
  done

lemma pbr_summary:
  "\<exists>m loc_d loc_e loc_n loc_o loc_s loc_g.
     pbr_specular_glossiness from_dict mh =
       glossiness from_dict m (get_ext mh ''KHR_materials_pbrSpecularGlossiness'' Map.empty)
         loc_g (Input (length (nodes mh)) (Name ''Roughness'')) \<and>
     nodes m = nodes mh @ [shader_node, output_node] @
       (if occlusion_texture mh \<noteq> None \<and> settings_node mh = None then [group_node] else []) \<and>
     links m = links mh @
       [(Output (length (nodes mh)) (Idx 0), Input (length (nodes mh) + 1) (Idx 0))] \<and>
     default_value m =
       (default_value mh)(Input (length (nodes mh)) (Name ''IOR'') \<mapsto> JNum 1000) \<and>
     settings_node m =
       (if occlusion_texture mh \<noteq> None \<and> settings_node mh = None
        then Some (length (nodes mh) + 2) else settings_node mh) \<and>
     built m = built mh @ builds_before (length (nodes mh)) loc_d loc_e loc_n @
       occlusion_builds mh loc_o @
       [specular_build (length (nodes mh)) loc_s
          (get_ext mh ''KHR_materials_pbrSpecularGlossiness'' Map.empty)]"
proof -
  obtain loc_d loc_e loc_n loc_o loc_s loc_g locs where
    calc: "calc_locations mh (get_ext mh ''KHR_materials_pbrSpecularGlossiness'' Map.empty) = Inr locs"
    and g: "getitem locs ''diffuse'' = Inr loc_d" "getitem locs ''emission'' = Inr loc_e"
      "getitem locs ''normal'' = Inr loc_n" "getitem locs ''occlusion'' = Inr loc_o"
      "getitem locs ''specular'' = Inr loc_s" "getitem locs ''glossiness'' = Inr loc_g"
    using calc_locations_total
      [of mh "get_ext mh ''KHR_materials_pbrSpecularGlossiness'' Map.empty"] by blast
  show ?thesis
  proof (cases "occlusion_texture mh")
    case None
    show ?thesis
      by (rule exI, rule exI [of _ loc_d], rule exI [of _ loc_e], rule exI [of _ loc_n],
          rule exI [of _ loc_o], rule exI [of _ loc_s], rule exI [of _ loc_g], rule conjI,
          rule pbr_no_occlusion [OF None calc g(1) g(2) g(3) g(5) g(6)])
         (simp add: None occlusion_builds_def)
  next
    case (Some t)
    show ?thesis
    proof (cases "settings_node mh")
      case None
      show ?thesis
        by (rule exI, rule exI [of _ loc_d], rule exI [of _ loc_e], rule exI [of _ loc_n],
            rule exI [of _ loc_o], rule exI [of _ loc_s], rule exI [of _ loc_g], rule conjI,
            rule pbr_new_settings [OF Some None calc g])
           (simp add: Some None occlusion_builds_def)
    next
      case (Some sn)
      show ?thesis
        by (rule exI, rule exI [of _ loc_d], rule exI [of _ loc_e], rule exI [of _ loc_n],
            rule exI [of _ loc_o], rule exI [of _ loc_s], rule exI [of _ loc_g], rule conjI,
            rule pbr_reuse_settings [OF \<open>occlusion_texture mh = Some t\<close> Some calc g])
           (simp add: \<open>occlusion_texture mh = Some t\<close> Some occlusion_builds_def)
    qed
  qed
qed

text \<open>
  C5. Whatever the helper, its extension and the texture parser, and also when the
  converter raises at the end, the node \<^verbatim>\<open>pbr_specular_glossiness\<close> creates first is
  the principled shader, and the default value of its IOR input is 1000 when the
  function is done.
\<close>

theorem ior_is_1000:
  "default_value (state_of (pbr_specular_glossiness from_dict mh))
     (Input (length (nodes mh)) (Name ''IOR'')) = Some (JNum 1000) \<and>
   bl_idname (nodes (state_of (pbr_specular_glossiness from_dict mh)) ! length (nodes mh))
     = ''ShaderNodeBsdfPrincipled''"
proof -
  obtain m loc_g where
    run: "pbr_specular_glossiness from_dict mh =
       glossiness from_dict m (get_ext mh ''KHR_materials_pbrSpecularGlossiness'' Map.empty)
         loc_g (Input (length (nodes mh)) (Name ''Roughness''))"
    and ns: "nodes m = nodes mh @ [shader_node, output_node] @
       (if occlusion_texture mh \<noteq> None \<and> settings_node mh = None then [group_node] else [])"
    and dv: "default_value m =
       (default_value mh)(Input (length (nodes mh)) (Name ''IOR'') \<mapsto> JNum 1000)"
    using pbr_summary [of from_dict mh] by blast
  have "default_value (state_of (pbr_specular_glossiness from_dict mh))
          (Input (length (nodes mh)) (Name ''IOR'')) = Some (JNum 1000)"
    by (simp add: run glossiness_named_default dv)
  moreover have "nodes (state_of (pbr_specular_glossiness from_dict mh)) ! length (nodes mh)
                   = nodes m ! length (nodes mh)"
    unfolding run by (rule glossiness_nth) (simp add: ns)
  ultimately show ?thesis by (simp add: ns shader_node_def)
qed

text \<open>
  The theorem at a material whose extension has a texture and the factor 0.5, and at a
  material whose helper already holds a node (the shader is then node 1).
\<close>

theorem ior_is_1000_witness:
  "default_value (state_of (pbr_specular_glossiness sample_from_dict
      (bare_helper\<lparr>extensions := [''KHR_materials_pbrSpecularGlossiness'' \<mapsto> scaled_ext]\<rparr>)))
     (Input 0 (Name ''IOR'')) = Some (JNum 1000) \<and>
   default_value (state_of (pbr_specular_glossiness sample_from_dict settings_helper))
     (Input 1 (Name ''IOR'')) = Some (JNum 1000)"
  using ior_is_1000 [of sample_from_dict
          "bare_helper\<lparr>extensions := [''KHR_materials_pbrSpecularGlossiness'' \<mapsto> scaled_ext]\<rparr>"]
        ior_is_1000 [of sample_from_dict settings_helper]
  by (simp add: bare_helper_def settings_helper_def)

text \<open>
  C4. \<^verbatim>\<open>pbr_specular_glossiness\<close> has the settings node made at most once: exactly
  once when the helper carries no settings node and the material has an occlusion
  texture (the new node, created third, becomes the helper's settings node), and not at
  all otherwise. A settings node the helper already carries stays the helper's settings
  node. With an occlusion texture, the occlusion build targets the Occlusion input of
  the helper's settings node, reused or new.
\<close>

theorem settings_node_created_at_most_once:
  "count_list (built (state_of (pbr_specular_glossiness from_dict mh))) MakeSettingsNode =
     count_list (built mh) MakeSettingsNode +
       (if settings_node mh = None \<and> occlusion_texture mh \<noteq> None then 1 else 0) \<and>
   settings_node (state_of (pbr_specular_glossiness from_dict mh)) =
     (if settings_node mh = None \<and> occlusion_texture mh \<noteq> None
      then Some (length (nodes mh) + 2) else settings_node mh) \<and>
   (occlusion_texture mh \<noteq> None \<longrightarrow>
      (\<exists>loc sn. settings_node (state_of (pbr_specular_glossiness from_dict mh)) = Some sn \<and>
         Occlusion loc (Input sn (Name ''Occlusion''))
           \<in> set (built (state_of (pbr_specular_glossiness from_dict mh)))))"
proof -
  obtain m loc_d loc_e loc_n loc_o loc_s loc_g where
    run: "pbr_specular_glossiness from_dict mh =
       glossiness from_dict m (get_ext mh ''KHR_materials_pbrSpecularGlossiness'' Map.empty)
         loc_g (Input (length (nodes mh)) (Name ''Roughness''))"
    and sn: "settings_node m =
       (if occlusion_texture mh \<noteq> None \<and> settings_node mh = None
        then Some (length (nodes mh) + 2) else settings_node mh)"
    and bs: "built m = built mh @ builds_before (length (nodes mh)) loc_d loc_e loc_n @
       occlusion_builds mh loc_o @
       [specular_build (length (nodes mh)) loc_s
          (get_ext mh ''KHR_materials_pbrSpecularGlossiness'' Map.empty)]"
    using pbr_summary [of from_dict mh] by blast
  have b: "built (state_of (pbr_specular_glossiness from_dict mh)) = built m"
    and s: "settings_node (state_of (pbr_specular_glossiness from_dict mh)) = settings_node m"
    by (simp_all add: run glossiness_frame)
  have count: "count_list (built m) MakeSettingsNode =
     count_list (built mh) MakeSettingsNode +
       (if settings_node mh = None \<and> occlusion_texture mh \<noteq> None then 1 else 0)"
    by (simp add: bs builds_before_def occlusion_builds_def specular_build_def
          split: option.splits)
  have "occlusion_texture mh \<noteq> None \<longrightarrow>
      (\<exists>sn. settings_node m = Some sn \<and>
         Occlusion loc_o (Input sn (Name ''Occlusion'')) \<in> set (built m))"
    by (auto simp: bs sn occlusion_builds_def split: option.splits)
  then have occ: "occlusion_texture mh \<noteq> None \<longrightarrow>
      (\<exists>loc sn. settings_node m = Some sn \<and>
         Occlusion loc (Input sn (Name ''Occlusion'')) \<in> set (built m))"
    by blast
  show ?thesis
    using count occ by (auto simp: b s sn)
qed

text \<open>
  The theorem at an occluded material without a settings node (one is made, node 2), at
  one whose helper carries a settings node (none is made, node 0 is kept) and at a
  material without an occlusion texture (none is made).
\<close>

theorem settings_node_created_at_most_once_witness:
  "count_list (built (state_of (pbr_specular_glossiness sample_from_dict occluded_helper)))
     MakeSettingsNode = 1 \<and>
   settings_node (state_of (pbr_specular_glossiness sample_from_dict occluded_helper)) = Some 2 \<and>
   count_list (built (state_of (pbr_specular_glossiness sample_from_dict settings_helper)))
     MakeSettingsNode = 0 \<and>
   settings_node (state_of (pbr_specular_glossiness sample_from_dict settings_helper)) = Some 0 \<and>
   count_list (built (state_of (pbr_specular_glossiness sample_from_dict bare_helper)))
     MakeSettingsNode = 0 \<and>
   settings_node (state_of (pbr_specular_glossiness sample_from_dict bare_helper)) = None"
  using settings_node_created_at_most_once [of sample_from_dict occluded_helper]
        settings_node_created_at_most_once [of sample_from_dict settings_helper]
        settings_node_created_at_most_once [of sample_from_dict bare_helper]
  by (simp add: occluded_helper_def settings_helper_def bare_helper_def)

text \<open>
  C10. \<^verbatim>\<open>pbr_specular_glossiness\<close> leaves every node the graph already had as it
  was. In particular, when the helper carries a settings node, that node stays the
  helper's settings node with its location and width unchanged; the location (10, 425)
  and the width 240 are assigned only to a settings node the function has just made,
  which happens when the helper carries none and the material has an occlusion texture.
\<close>

theorem existing_settings_node_untouched:
  "(\<forall>i. i < length (nodes mh) \<longrightarrow>
      nodes (state_of (pbr_specular_glossiness from_dict mh)) ! i = nodes mh ! i) \<and>
   (\<forall>sn. settings_node mh = Some sn \<and> sn < length (nodes mh) \<longrightarrow>
      settings_node (state_of (pbr_specular_glossiness from_dict mh)) = Some sn \<and>
      location (nodes (state_of (pbr_specular_glossiness from_dict mh)) ! sn)
        = location (nodes mh ! sn) \<and>
      width (nodes (state_of (pbr_specular_glossiness from_dict mh)) ! sn)
        = width (nodes mh ! sn)) \<and>
   (settings_node mh = None \<and> occlusion_texture mh \<noteq> None \<longrightarrow>
      settings_node (state_of (pbr_specular_glossiness from_dict mh))
        = Some (length (nodes mh) + 2) \<and>
      location (nodes (state_of (pbr_specular_glossiness from_dict mh)) ! (length (nodes mh) + 2))
        = Some (10, 425) \<and>
      width (nodes (state_of (pbr_specular_glossiness from_dict mh)) ! (length (nodes mh) + 2))
        = Some 240)"
proof -
  obtain m loc_g where
    run: "pbr_specular_glossiness from_dict mh =
       glossiness from_dict m (get_ext mh ''KHR_materials_pbrSpecularGlossiness'' Map.empty)
         loc_g (Input (length (nodes mh)) (Name ''Roughness''))"
    and ns: "nodes m = nodes mh @ [shader_node, output_node] @
       (if occlusion_texture mh \<noteq> None \<and> settings_node mh = None then [group_node] else [])"
    and sn: "settings_node m =
       (if occlusion_texture mh \<noteq> None \<and> settings_node mh = None
        then Some (length (nodes mh) + 2) else settings_node mh)"
    using pbr_summary [of from_dict mh] by blast
  have s: "settings_node (state_of (pbr_specular_glossiness from_dict mh)) = settings_node m"
    by (simp add: run glossiness_frame)
  have nth: "i < length (nodes m) \<Longrightarrow>
      nodes (state_of (pbr_specular_glossiness from_dict mh)) ! i = nodes m ! i" for i
    unfolding run by (rule glossiness_nth)
  have old: "\<forall>i. i < length (nodes mh) \<longrightarrow>
      nodes (state_of (pbr_specular_glossiness from_dict mh)) ! i = nodes mh ! i"
    by (simp add: nth ns nth_append)
  have new: "settings_node mh = None \<and> occlusion_texture mh \<noteq> None \<longrightarrow>
      nodes (state_of (pbr_specular_glossiness from_dict mh)) ! (length (nodes mh) + 2)
        = group_node"
    by (simp add: nth ns nth_append)
  show ?thesis
    using old new by (auto simp: s sn group_node_def)
qed

text \<open>
  The theorem at a helper whose settings node sits at (-600, 0) with width 180, and at an
  occluded material without a settings node.
\<close>

theorem existing_settings_node_untouched_witness:
  "settings_node (state_of (pbr_specular_glossiness sample_from_dict settings_helper)) = Some 0 \<and>
   location (nodes (state_of (pbr_specular_glossiness sample_from_dict settings_helper)) ! 0)
     = Some (- 600, 0) \<and>
   width (nodes (state_of (pbr_specular_glossiness sample_from_dict settings_helper)) ! 0)
     = Some 180 \<and>
   location (nodes (state_of (pbr_specular_glossiness sample_from_dict occluded_helper)) ! 2)
     = Some (10, 425) \<and>
   width (nodes (state_of (pbr_specular_glossiness sample_from_dict occluded_helper)) ! 2)
     = Some 240"
  using existing_settings_node_untouched [of settings_helper sample_from_dict]
        existing_settings_node_untouched [of occluded_helper sample_from_dict]
  by (simp add: settings_helper_def occluded_helper_def bare_helper_def stale_node_def
        numeral_2_eq_2)

text \<open>
  C8. A missing key is no error and stands for its default. For the converter an
  extension without \<^verbatim>\<open>glossinessFactor\<close> behaves as one that binds it to 1.0, one
  without \<^verbatim>\<open>specularGlossinessTexture\<close> as one that binds it to \<^verbatim>\<open>None\<close>, and with
  both missing the converter returns with the roughness set to 0 = clamp (1 - 1.0). In
  the assembly the specular colour build receives the factor [1, 1, 1] when
  \<^verbatim>\<open>specularFactor\<close> is missing and the texture \<^verbatim>\<open>None\<close> when the texture key is
  missing. Whenever the assembly raises, a key that is present holds a malformed value
  (a factor that \<^verbatim>\<open>1.0 - factor\<close> rejects, or a texture value that does not parse); so it never
  raises when the factor and the texture are both missing, whatever else the extension
  holds, and never because a key is absent.
\<close>

theorem missing_keys_fall_back:
  "(ext ''glossinessFactor'' = None \<longrightarrow>
      glossiness from_dict mh ext loc rs =
        glossiness from_dict mh (ext(''glossinessFactor'' \<mapsto> JNum 1)) loc rs) \<and>
   (ext ''specularGlossinessTexture'' = None \<longrightarrow>
      glossiness from_dict mh ext loc rs =
        glossiness from_dict mh (ext(''specularGlossinessTexture'' \<mapsto> JNull)) loc rs) \<and>
   (ext ''glossinessFactor'' = None \<and> ext ''specularGlossinessTexture'' = None \<longrightarrow>
      glossiness from_dict mh ext loc rs =
        Returned (mh\<lparr>default_value := (default_value mh)(rs \<mapsto> JNum 0)\<rparr>)) \<and>
   (get_ext mh ''KHR_materials_pbrSpecularGlossiness'' Map.empty = ext \<longrightarrow>
      (ext ''specularFactor'' = None \<longrightarrow>
         (\<exists>l. ColorFactorAndTexture l ''Specular Color''
                 (Input (length (nodes mh)) (Name ''Specular Tint''))
                 (JArr [JNum 1, JNum 1, JNum 1])
                 (dict_get ext ''specularGlossinessTexture'' JNull)
               \<in> set (built (state_of (pbr_specular_glossiness from_dict mh))))) \<and>
      (ext ''specularGlossinessTexture'' = None \<longrightarrow>
         (\<exists>l. ColorFactorAndTexture l ''Specular Color''
                 (Input (length (nodes mh)) (Name ''Specular Tint''))
                 (dict_get ext ''specularFactor'' (JArr [JNum 1, JNum 1, JNum 1]))
                 JNull
               \<in> set (built (state_of (pbr_specular_glossiness from_dict mh))))) \<and>
      (raised (pbr_specular_glossiness from_dict mh) \<longrightarrow>
         (\<exists>v. ext ''glossinessFactor'' = Some v \<and> isl (py_rsub 1 v)) \<or>
         (\<exists>v. ext ''specularGlossinessTexture'' = Some v \<and> truthy v \<and> isl (from_dict v))) \<and>
      (ext ''glossinessFactor'' = None \<and> ext ''specularGlossinessTexture'' = None \<longrightarrow>
         \<not> raised (pbr_specular_glossiness from_dict mh) \<and>
         default_value (state_of (pbr_specular_glossiness from_dict mh))
           (Input (length (nodes mh)) (Name ''Roughness'')) = Some (JNum 0)))"
proof -
  have both: "glossiness from_dict m ext l s =
                Returned (m\<lparr>default_value := (default_value m)(s \<mapsto> JNum 0)\<rparr>)"
    if "ext ''glossinessFactor'' = None" "ext ''specularGlossinessTexture'' = None"
    for m l s
    using that by (simp add: glossiness_plain dict_get_def clamp_def)
  have assembly: "(ext ''specularFactor'' = None \<longrightarrow>
         (\<exists>l. ColorFactorAndTexture l ''Specular Color''
                 (Input (length (nodes mh)) (Name ''Specular Tint''))
                 (JArr [JNum 1, JNum 1, JNum 1])
                 (dict_get ext ''specularGlossinessTexture'' JNull)
               \<in> set (built (state_of (pbr_specular_glossiness from_dict mh))))) \<and>
      (ext ''specularGlossinessTexture'' = None \<longrightarrow>
         (\<exists>l. ColorFactorAndTexture l ''Specular Color''
                 (Input (length (nodes mh)) (Name ''Specular Tint''))
                 (dict_get ext ''specularFactor'' (JArr [JNum 1, JNum 1, JNum 1]))
                 JNull
               \<in> set (built (state_of (pbr_specular_glossiness from_dict mh))))) \<and>
      (raised (pbr_specular_glossiness from_dict mh) \<longrightarrow>
         (\<exists>v. ext ''glossinessFactor'' = Some v \<and> isl (py_rsub 1 v)) \<or>
         (\<exists>v. ext ''specularGlossinessTexture'' = Some v \<and> truthy v \<and> isl (from_dict v))) \<and>
      (ext ''glossinessFactor'' = None \<and> ext ''specularGlossinessTexture'' = None \<longrightarrow>
         \<not> raised (pbr_specular_glossiness from_dict mh) \<and>
         default_value (state_of (pbr_specular_glossiness from_dict mh))
           (Input (length (nodes mh)) (Name ''Roughness'')) = Some (JNum 0))"
    if e: "get_ext mh ''KHR_materials_pbrSpecularGlossiness'' Map.empty = ext"
  proof -
    obtain m loc_d loc_e loc_n loc_o loc_s loc_g where
      run: "pbr_specular_glossiness from_dict mh =
         glossiness from_dict m ext loc_g (Input (length (nodes mh)) (Name ''Roughness''))"
      and bs: "built m = built mh @ builds_before (length (nodes mh)) loc_d loc_e loc_n @
         occlusion_builds mh loc_o @ [specular_build (length (nodes mh)) loc_s ext]"
      using pbr_summary [of from_dict mh] unfolding e by blast
    have b: "built (state_of (pbr_specular_glossiness from_dict mh)) = built m"
      by (simp add: run glossiness_frame)
    have spec: "specular_build (length (nodes mh)) loc_s ext
                  \<in> set (built (state_of (pbr_specular_glossiness from_dict mh)))"
      by (simp add: b bs)
    have c1: "ext ''specularFactor'' = None \<longrightarrow>
         (\<exists>l. ColorFactorAndTexture l ''Specular Color''
                 (Input (length (nodes mh)) (Name ''Specular Tint''))
                 (JArr [JNum 1, JNum 1, JNum 1])
                 (dict_get ext ''specularGlossinessTexture'' JNull)
               \<in> set (built (state_of (pbr_specular_glossiness from_dict mh))))"
    proof
      assume "ext ''specularFactor'' = None"
      then have "specular_build (length (nodes mh)) loc_s ext =
                   ColorFactorAndTexture loc_s ''Specular Color''
                     (Input (length (nodes mh)) (Name ''Specular Tint''))
                     (JArr [JNum 1, JNum 1, JNum 1])
                     (dict_get ext ''specularGlossinessTexture'' JNull)"
        by (simp add: specular_build_def dict_get_def)
      with spec show "\<exists>l. ColorFactorAndTexture l ''Specular Color''
                 (Input (length (nodes mh)) (Name ''Specular Tint''))
                 (JArr [JNum 1, JNum 1, JNum 1])
                 (dict_get ext ''specularGlossinessTexture'' JNull)
               \<in> set (built (state_of (pbr_specular_glossiness from_dict mh)))"
        by (intro exI [of _ loc_s]) simp
    qed
    have c2: "ext ''specularGlossinessTexture'' = None \<longrightarrow>
         (\<exists>l. ColorFactorAndTexture l ''Specular Color''
                 (Input (length (nodes mh)) (Name ''Specular Tint''))
                 (dict_get ext ''specularFactor'' (JArr [JNum 1, JNum 1, JNum 1]))
                 JNull
               \<in> set (built (state_of (pbr_specular_glossiness from_dict mh))))"
    proof
      assume "ext ''specularGlossinessTexture'' = None"
      then have "specular_build (length (nodes mh)) loc_s ext =
                   ColorFactorAndTexture loc_s ''Specular Color''
                     (Input (length (nodes mh)) (Name ''Specular Tint''))
                     (dict_get ext ''specularFactor'' (JArr [JNum 1, JNum 1, JNum 1]))
                     JNull"
        by (simp add: specular_build_def dict_get_def)
      with spec show "\<exists>l. ColorFactorAndTexture l ''Specular Color''
                 (Input (length (nodes mh)) (Name ''Specular Tint''))
                 (dict_get ext ''specularFactor'' (JArr [JNum 1, JNum 1, JNum 1]))
                 JNull
               \<in> set (built (state_of (pbr_specular_glossiness from_dict mh)))"
        by (intro exI [of _ loc_s]) simp
    qed
    have c3: "raised (pbr_specular_glossiness from_dict mh) \<longrightarrow>
         (\<exists>v. ext ''glossinessFactor'' = Some v \<and> isl (py_rsub 1 v)) \<or>
         (\<exists>v. ext ''specularGlossinessTexture'' = Some v \<and> truthy v \<and> isl (from_dict v))"
      unfolding run using glossiness_raised by blast
    have c4: "ext ''glossinessFactor'' = None \<and> ext ''specularGlossinessTexture'' = None \<longrightarrow>
         \<not> raised (pbr_specular_glossiness from_dict mh) \<and>
         default_value (state_of (pbr_specular_glossiness from_dict mh))
           (Input (length (nodes mh)) (Name ''Roughness'')) = Some (JNum 0)"
      unfolding run by (simp add: both)
    from c1 c2 c3 c4 show ?thesis by blast
  qed
  show ?thesis
    using glossiness_default_factor [of ext from_dict mh loc rs]
          glossiness_default_texture [of ext from_dict mh loc rs]
          both [of mh loc rs] assembly
    by blast
qed

text \<open>
  The theorem at a material without the extension (the extension dict is then empty):
  no error, roughness 0, specular colour factor [1, 1, 1] with no texture.
\<close>

theorem missing_keys_fall_back_witness:
  "\<not> raised (pbr_specular_glossiness sample_from_dict bare_helper) \<and>
   default_value (state_of (pbr_specular_glossiness sample_from_dict bare_helper))
     (Input 0 (Name ''Roughness'')) = Some (JNum 0) \<and>
   (\<exists>l. ColorFactorAndTexture l ''Specular Color'' (Input 0 (Name ''Specular Tint''))
           (JArr [JNum 1, JNum 1, JNum 1]) JNull
         \<in> set (built (state_of (pbr_specular_glossiness sample_from_dict bare_helper)))) \<and>
   glossiness sample_from_dict shader_helper Map.empty (- 200, 0) (Input 0 (Name ''Roughness''))
     = Returned (shader_helper\<lparr>default_value := [Input 0 (Name ''Roughness'') \<mapsto> JNum 0]\<rparr>)"
proof -
  have e: "get_ext bare_helper ''KHR_materials_pbrSpecularGlossiness'' Map.empty = Map.empty"
    by (simp add: get_ext_def bare_helper_def)
  have k: "(Map.empty :: ext_dict) ''glossinessFactor'' = None \<and>
           (Map.empty :: ext_dict) ''specularGlossinessTexture'' = None"
    and f: "(Map.empty :: ext_dict) ''specularFactor'' = None"
    by simp_all
  note assembly =
    missing_keys_fall_back [of Map.empty sample_from_dict bare_helper "(- 200, 0)"
      "Input 0 (Name ''Roughness'')", THEN conjunct2, THEN conjunct2, THEN conjunct2,
      THEN mp, OF e]
  note converter =
    missing_keys_fall_back [of Map.empty sample_from_dict shader_helper "(- 200, 0)"
      "Input 0 (Name ''Roughness'')", THEN conjunct2, THEN conjunct2, THEN conjunct1,
      THEN mp, OF k]
  have "\<not> raised (pbr_specular_glossiness sample_from_dict bare_helper) \<and>
        default_value (state_of (pbr_specular_glossiness sample_from_dict bare_helper))
          (Input 0 (Name ''Roughness'')) = Some (JNum 0)"
    using assembly [THEN conjunct2, THEN conjunct2, THEN conjunct2, THEN mp, OF k]
    by (simp add: bare_helper_def)
  moreover have "\<exists>l. ColorFactorAndTexture l ''Specular Color''
           (Input 0 (Name ''Specular Tint'')) (JArr [JNum 1, JNum 1, JNum 1]) JNull
         \<in> set (built (state_of (pbr_specular_glossiness sample_from_dict bare_helper)))"
    using assembly [THEN conjunct1, THEN mp, OF f]
    by (simp add: bare_helper_def dict_get_def)
  moreover have "glossiness sample_from_dict shader_helper Map.empty (- 200, 0)
       (Input 0 (Name ''Roughness''))
     = Returned (shader_helper\<lparr>default_value := [Input 0 (Name ''Roughness'') \<mapsto> JNum 0]\<rparr>)"
    using converter by (simp add: shader_helper_def bare_helper_def nodes_new_def)
  ultimately show ?thesis by blast
qed

end
